theory Spec2Isabelle
  imports Complex_Main "HOL-Library.AList"
begin

section \<open>Decoded messages and the Python operations applied to them\<close>

text \<open>
  The server and the client of the MetaTrader bridge exchange JSON texts. The model works on
  the decoded values: what \<^verbatim>\<open>json.loads\<close> returns and what \<^verbatim>\<open>json.dumps\<close> is given. A
  dictionary is an association list in insertion order; numbers are rationals (every finite
  float is one; NaN and the infinities are left out). An inbound text that does not decode is
  \<open>None\<close>, the \<^verbatim>\<open>JSONDecodeError\<close> of the source.
\<close>

datatype json =
    JNull
  | JBool bool
  | JNum rat
  | JStr string
  | JArr "json list"
  | JObj "(string \<times> json) list"

text \<open>The exceptions the modelled code can meet, each with the text \<^verbatim>\<open>str(e)\<close> gives.\<close>

datatype exn = TypeError string | KeyError string | AttributeError string | OSError string

definition str_exn :: "exn \<Rightarrow> string" where
  "str_exn e = (case e of TypeError m \<Rightarrow> m | KeyError m \<Rightarrow> m | AttributeError m \<Rightarrow> m | OSError m \<Rightarrow> m)"

definition quoted :: "string \<Rightarrow> string" where
  "quoted s = CHR 0x27 # s @ [CHR 0x27]"

fun is_substring :: "string \<Rightarrow> string \<Rightarrow> bool" where
  "is_substring k [] = (k = [])"
| "is_substring k (c # t) = (if take (length k) (c # t) = k then True else is_substring k t)"

text \<open>
  \<^verbatim>\<open>k in data\<close> for a string \<open>k\<close>: key membership on a dictionary, element membership on a
  list, substring search on a string, and a TypeError on a number, a boolean or null.
\<close>

fun py_contains :: "string \<Rightarrow> json \<Rightarrow> exn + bool" where
  "py_contains k (JObj kvs) = Inr (k \<in> set (map fst kvs))"
| "py_contains k (JArr xs) = Inr (JStr k \<in> set xs)"
| "py_contains k (JStr t) = Inr (is_substring k t)"
| "py_contains k v = Inl (TypeError ''argument is not iterable'')"

text \<open>\<^verbatim>\<open>data[k]\<close> for a string \<open>k\<close>: only a dictionary can be indexed by a string.\<close>

fun py_getitem :: "json \<Rightarrow> string \<Rightarrow> exn + json" where
  "py_getitem (JObj kvs) k = (case map_of kvs k of Some v \<Rightarrow> Inr v | None \<Rightarrow> Inl (KeyError (quoted k)))"
| "py_getitem v k = Inl (TypeError ''indices must be integers'')"

text \<open>\<^verbatim>\<open>data.get(k, default)\<close>.\<close>

fun py_get :: "json \<Rightarrow> string \<Rightarrow> json \<Rightarrow> exn + json" where
  "py_get (JObj kvs) k dflt = (case map_of kvs k of Some v \<Rightarrow> Inr v | None \<Rightarrow> Inr dflt)"
| "py_get v k dflt = Inl (AttributeError ''object has no attribute get'')"

text \<open>
  Keys of the response cache. Python hashes null, booleans, numbers and strings (a boolean
  is the number 0 or 1 as a key) and raises TypeError on a list or a dictionary.
\<close>

datatype key = KNone | KNum rat | KStr string

fun key_of :: "json \<Rightarrow> exn + key" where
  "key_of JNull = Inr KNone"
| "key_of (JBool b) = Inr (KNum (if b then 1 else 0))"
| "key_of (JNum r) = Inr (KNum r)"
| "key_of (JStr s) = Inr (KStr s)"
| "key_of (JArr xs) = Inl (TypeError (''unhashable type: '' @ quoted ''list''))"
| "key_of (JObj kvs) = Inl (TypeError (''unhashable type: '' @ quoted ''dict''))"

text \<open>
  The values the library hands to the code while it handles one event: \<^verbatim>\<open>time.time()\<close>,
  \<^verbatim>\<open>str(uuid.uuid4())\<close>, \<^verbatim>\<open>datetime.now().isoformat()\<close>, and the text an f-string gives
  for a decoded value that is not a string (a string formats as itself).
\<close>

record readings =
  time_now :: rat
  uuid4 :: string
  isoformat :: string
  py_repr :: "json \<Rightarrow> string"

definition format_value :: "readings \<Rightarrow> json \<Rightarrow> string" where
  "format_value rd v = (case v of JStr s \<Rightarrow> s | _ \<Rightarrow> py_repr rd v)"

section \<open>The state of the server\<close>

type_synonym conn_id = string
type_synonym sock = nat

record client_info =
  socket :: sock
  address :: "string \<times> nat"
  client_type :: string
  authenticated :: bool
  last_activity :: rat

record token_info =
  permissions :: "string list"
  created_at :: string

record command_item =
  client_id :: conn_id
  command :: json
  parameters :: json
  request_id :: json
  enqueued_at :: rat

record cache_entry =
  entry_data :: json
  entry_timestamp :: rat

text \<open>
  The fields of \<^verbatim>\<open>MCPServer\<close>, the two locks a thread can be left holding, and the
  transport: \<open>sock_errors\<close> lists the sockets on which \<^verbatim>\<open>sendall\<close> raises (with the text of
  the OSError), \<open>wire\<close> is everything \<^verbatim>\<open>sendall\<close> has handed to the transport, oldest first.
  \<^verbatim>\<open>queue_lock\<close> is only ever held around a list operation, so it is not a field.
\<close>

record server =
  auth_enabled :: bool
  auth_tokens :: "(string \<times> token_info) list"
  clients :: "(conn_id \<times> client_info) list"
  mt5_connection :: "sock option"
  command_queue :: "command_item list"
  response_cache :: "(key \<times> cache_entry) list"
  clients_lock :: bool
  cache_lock :: bool
  sock_errors :: "(sock \<times> string) list"
  wire :: "(sock \<times> json) list"

text \<open>
  What a call does to the thread that makes it: it returns a value, it raises, or it never
  comes back because it waits for a \<^verbatim>\<open>threading.Lock\<close> that is held (the lock is not
  reentrant). Each outcome carries the server state the call leaves behind.
\<close>

datatype 'a result = Returned 'a server | Raised exn server | Blocked server

fun state_of :: "'a result \<Rightarrow> server" where
  "state_of (Returned v s) = s"
| "state_of (Raised e s) = s"
| "state_of (Blocked s) = s"

section \<open>The response cache sweep\<close>

text \<open>
  \<^verbatim>\<open>_clean_expired_cache\<close>: under the cache lock, collect the keys whose entry is older than
  600 seconds, then delete each of them.
\<close>

fun expired_keys :: "rat \<Rightarrow> (key \<times> cache_entry) list \<Rightarrow> key list" where
  "expired_keys current_time [] = []"
| "expired_keys current_time ((k, v) # rest) =
     (if current_time - entry_timestamp v > 600 then k # expired_keys current_time rest
      else expired_keys current_time rest)"

fun delete_keys :: "key list \<Rightarrow> (key \<times> cache_entry) list \<Rightarrow> (key \<times> cache_entry) list" where
  "delete_keys [] cache = cache"
| "delete_keys (k # ks) cache = delete_keys ks (AList.delete k cache)"

definition clean_expired_cache :: "rat \<Rightarrow> server \<Rightarrow> unit result" where
  "clean_expired_cache current_time s =
     (if cache_lock s then Blocked s
      else Returned () (s\<lparr>response_cache :=
             delete_keys (expired_keys current_time (response_cache s)) (response_cache s)\<rparr>))"

definition fresh :: "rat \<Rightarrow> key \<times> cache_entry \<Rightarrow> bool" where
  "fresh current_time kv = (current_time - entry_timestamp (snd kv) \<le> 600)"

section \<open>Sending to a connection\<close>

text \<open>\<^verbatim>\<open>socket.sendall\<close>: raises on a socket that is closed or broken, else hands the message over.\<close>

definition sendall :: "sock \<Rightarrow> json \<Rightarrow> server \<Rightarrow> exn + server" where
  "sendall sk msg s =
     (case map_of (sock_errors s) sk of
        Some m \<Rightarrow> Inl (OSError m)
      | None \<Rightarrow> Inr (s\<lparr>wire := wire s @ [(sk, msg)]\<rparr>))"

text \<open>
  \<^verbatim>\<open>_send_to_client\<close>: takes the registry lock, looks the connection up and writes to its
  socket; an exception of the write is caught and gives False.
\<close>

definition send_to_client :: "conn_id \<Rightarrow> json \<Rightarrow> server \<Rightarrow> bool result" where
  "send_to_client cid msg s =
     (if clients_lock s then Blocked s
      else case map_of (clients s) cid of
             None \<Rightarrow> Returned False s
           | Some ci \<Rightarrow>
               (case sendall (socket ci) msg s of
                  Inl e \<Rightarrow> Returned False s
                | Inr s1 \<Rightarrow> Returned True s1))"

definition discard :: "'a result \<Rightarrow> unit result" where
  "discard r = (case r of Returned v s \<Rightarrow> Returned () s | Raised e s \<Rightarrow> Raised e s | Blocked s \<Rightarrow> Blocked s)"

section \<open>Authentication state of a connection\<close>

definition is_client_authenticated :: "conn_id \<Rightarrow> server \<Rightarrow> bool result" where
  "is_client_authenticated cid s =
     (if \<not> auth_enabled s then Returned True s
      else if clients_lock s then Blocked s
      else case map_of (clients s) cid of
             Some ci \<Rightarrow> Returned (authenticated ci) s
           | None \<Rightarrow> Returned False s)"

text \<open>\<^verbatim>\<open>token in self.auth_tokens\<close>: the keys of the store are strings.\<close>

definition token_known :: "json \<Rightarrow> (string \<times> token_info) list \<Rightarrow> exn + bool" where
  "token_known token toks =
     (case key_of token of
        Inl e \<Rightarrow> Inl e
      | Inr k \<Rightarrow> (case k of KStr t \<Rightarrow> Inr (t \<in> set (map fst toks)) | _ \<Rightarrow> Inr False))"

definition authenticate_client :: "conn_id \<Rightarrow> json \<Rightarrow> server \<Rightarrow> bool result" where
  "authenticate_client cid token s =
     (if \<not> auth_enabled s then Returned True s
      else case token_known token (auth_tokens s) of
             Inl e \<Rightarrow> Raised e s
           | Inr known \<Rightarrow>
               (if known then
                  (if clients_lock s then Blocked s
                   else case map_of (clients s) cid of
                          Some ci \<Rightarrow>
                            Returned True
                              (s\<lparr>clients := AList.update cid (ci\<lparr>authenticated := True\<rparr>) (clients s)\<rparr>)
                        | None \<Rightarrow> Returned False s)
                else Returned False s))"

definition get_client_type :: "conn_id \<Rightarrow> server \<Rightarrow> string result" where
  "get_client_type cid s =
     (if clients_lock s then Blocked s
      else case map_of (clients s) cid of
             Some ci \<Rightarrow> Returned (client_type ci) s
           | None \<Rightarrow> Returned ''unknown'' s)"

section \<open>Handling one inbound message\<close>

definition connected_ack :: "readings \<Rightarrow> json" where
  "connected_ack rd = JObj [(''status'', JStr ''connected''), (''server_time'', JStr (isoformat rd))]"

definition auth_ok_reply :: json where
  "auth_ok_reply = JObj [(''status'', JStr ''authenticated''), (''message'', JStr ''Authentication successful'')]"

definition auth_failed_reply :: json where
  "auth_failed_reply = JObj [(''status'', JStr ''error''), (''message'', JStr ''Authentication failed'')]"

definition not_authenticated_reply :: json where
  "not_authenticated_reply = JObj [(''status'', JStr ''error''), (''message'', JStr ''Not authenticated'')]"

definition invalid_json_reply :: json where
  "invalid_json_reply = JObj [(''status'', JStr ''error''), (''message'', JStr ''Invalid JSON format'')]"

definition queued_ack :: "readings \<Rightarrow> json \<Rightarrow> json \<Rightarrow> json" where
  "queued_ack rd rid cmd =
     JObj [(''status'', JStr ''queued''), (''requestId'', rid),
           (''message'', JStr (''Command '' @ quoted (format_value rd cmd) @ '' queued for processing''))]"

definition error_reply :: "json \<Rightarrow> string \<Rightarrow> json" where
  "error_reply rid msg = JObj [(''status'', JStr ''error''), (''requestId'', rid), (''message'', JStr msg)]"

text \<open>\<^verbatim>\<open>'identity' in data and data['identity'] == 'MT5_EA'\<close> (line 268).\<close>

definition is_identity :: "json \<Rightarrow> exn + bool" where
  "is_identity d =
     (case py_contains ''identity'' d of
        Inl e \<Rightarrow> Inl e
      | Inr present \<Rightarrow>
          (if present then
             (case py_getitem d ''identity'' of
                Inl e \<Rightarrow> Inl e
              | Inr v \<Rightarrow> Inr (v = JStr ''MT5_EA''))
           else Inr False))"

text \<open>
  The identity branch (lines 269 to 281). It takes the registry lock, and with the lock held
  marks the connection as the EA, installs its socket as the upstream link and calls
  \<^verbatim>\<open>_send_to_client\<close>, which takes the same lock. The value is True when the branch has
  returned from \<^verbatim>\<open>_process_message\<close>, False when the connection is not registered and the
  code falls through.
\<close>

definition identify :: "readings \<Rightarrow> conn_id \<Rightarrow> server \<Rightarrow> bool result" where
  "identify rd cid s =
     (if clients_lock s then Blocked s
      else case map_of (clients s) cid of
             None \<Rightarrow> Returned False s
           | Some ci \<Rightarrow>
               (case send_to_client cid (connected_ack rd)
                       (s\<lparr>clients_lock := True,
                          clients := AList.update cid (ci\<lparr>client_type := ''mt5_ea''\<rparr>) (clients s),
                          mt5_connection := Some (socket ci)\<rparr>) of
                  Returned b s1 \<Rightarrow> Returned True (s1\<lparr>clients_lock := False\<rparr>)
                | Raised e s1 \<Rightarrow> Raised e (s1\<lparr>clients_lock := False\<rparr>)
                | Blocked s1 \<Rightarrow> Blocked s1))"

text \<open>The authentication handshake (lines 285 to 300).\<close>

definition handshake :: "conn_id \<Rightarrow> json \<Rightarrow> server \<Rightarrow> unit result" where
  "handshake cid d s =
     (case py_getitem d ''auth'' of
        Inl e \<Rightarrow> Raised e s
      | Inr auth_token \<Rightarrow>
          (case authenticate_client cid auth_token s of
             Returned ok s1 \<Rightarrow>
               discard (send_to_client cid (if ok then auth_ok_reply else auth_failed_reply) s1)
           | Raised e s1 \<Rightarrow> Raised e s1
           | Blocked s1 \<Rightarrow> Blocked s1))"

text \<open>A reply of the EA (lines 322 to 329): stored under its \<^verbatim>\<open>responseToId\<close>.\<close>

definition store_response :: "readings \<Rightarrow> json \<Rightarrow> server \<Rightarrow> unit result" where
  "store_response rd d s =
     (case py_contains ''responseToId'' d of
        Inl e \<Rightarrow> Raised e s
      | Inr present \<Rightarrow>
          (if present then
             (case py_getitem d ''responseToId'' of
                Inl e \<Rightarrow> Raised e s
              | Inr response_to \<Rightarrow>
                  (if cache_lock s then Blocked s
                   else case key_of response_to of
                          Inl e \<Rightarrow> Raised e s
                        | Inr k \<Rightarrow>
                            Returned ()
                              (s\<lparr>response_cache :=
                                   AList.update k \<lparr>entry_data = d, entry_timestamp = time_now rd\<rparr>
                                     (response_cache s)\<rparr>)))
           else Returned () s))"

text \<open>A request of a client (lines 332 to 348): appended to the queue, then acknowledged.\<close>

definition enqueue_command :: "readings \<Rightarrow> conn_id \<Rightarrow> json \<Rightarrow> json \<Rightarrow> json \<Rightarrow> server \<Rightarrow> unit result" where
  "enqueue_command rd cid cmd params rid s =
     discard (send_to_client cid (queued_ack rd rid cmd)
       (s\<lparr>command_queue := command_queue s @
            [\<lparr>client_id = cid, command = cmd, parameters = params, request_id = rid,
              enqueued_at = time_now rd\<rparr>]\<rparr>))"

text \<open>Command processing (lines 312 to 348).\<close>

definition process_command :: "readings \<Rightarrow> conn_id \<Rightarrow> json \<Rightarrow> server \<Rightarrow> unit result" where
  "process_command rd cid d s =
     (case py_contains ''command'' d of
        Inl e \<Rightarrow> Raised e s
      | Inr present \<Rightarrow>
          (if present then
             (case py_getitem d ''command'' of
                Inl e \<Rightarrow> Raised e s
              | Inr cmd \<Rightarrow>
                  (case py_get d ''requestId'' (JStr (uuid4 rd)) of
                     Inl e \<Rightarrow> Raised e s
                   | Inr rid \<Rightarrow>
                       (case py_get d ''parameters'' (JObj []) of
                          Inl e \<Rightarrow> Raised e s
                        | Inr params \<Rightarrow>
                            (case get_client_type cid s of
                               Returned ty s1 \<Rightarrow>
                                 (if ty = ''mt5_ea'' then store_response rd d s1
                                  else enqueue_command rd cid cmd params rid s1)
                             | Raised e s1 \<Rightarrow> Raised e s1
                             | Blocked s1 \<Rightarrow> Blocked s1))))
           else Returned () s))"

text \<open>The authentication gate in front of command processing (lines 302 to 309).\<close>

definition command_gate :: "readings \<Rightarrow> conn_id \<Rightarrow> json \<Rightarrow> server \<Rightarrow> unit result" where
  "command_gate rd cid d s =
     (case is_client_authenticated cid s of
        Returned authed s1 \<Rightarrow>
          (if authed then process_command rd cid d s1
           else discard (send_to_client cid not_authenticated_reply s1))
      | Raised e s1 \<Rightarrow> Raised e s1
      | Blocked s1 \<Rightarrow> Blocked s1)"

text \<open>
  The test of line 284, \<^verbatim>\<open>'auth' in data and not self._is_client_authenticated(client_id)\<close>,
  and what follows it.
\<close>

definition auth_step :: "readings \<Rightarrow> conn_id \<Rightarrow> json \<Rightarrow> server \<Rightarrow> unit result" where
  "auth_step rd cid d s =
     (case py_contains ''auth'' d of
        Inl e \<Rightarrow> Raised e s
      | Inr present \<Rightarrow>
          (if present then
             (case is_client_authenticated cid s of
                Returned authed s1 \<Rightarrow>
                  (if authed then command_gate rd cid d s1 else handshake cid d s1)
              | Raised e s1 \<Rightarrow> Raised e s1
              | Blocked s1 \<Rightarrow> Blocked s1)
           else command_gate rd cid d s))"

definition process_decoded :: "readings \<Rightarrow> conn_id \<Rightarrow> json \<Rightarrow> server \<Rightarrow> unit result" where
  "process_decoded rd cid d s =
     (case is_identity d of
        Inl e \<Rightarrow> Raised e s
      | Inr ident \<Rightarrow>
          (if ident then
             (case identify rd cid s of
                Returned done s1 \<Rightarrow> (if done then Returned () s1 else auth_step rd cid d s1)
              | Raised e s1 \<Rightarrow> Raised e s1
              | Blocked s1 \<Rightarrow> Blocked s1)
           else auth_step rd cid d s))"

text \<open>
  \<^verbatim>\<open>_process_message\<close>. A text that does not decode is answered with an error; any other
  exception is logged and dropped, with the state as the exception left it.
\<close>

definition process_message :: "readings \<Rightarrow> conn_id \<Rightarrow> json option \<Rightarrow> server \<Rightarrow> unit result" where
  "process_message rd cid message s =
     (case message of
        None \<Rightarrow> discard (send_to_client cid invalid_json_reply s)
      | Some d \<Rightarrow>
          (case process_decoded rd cid d s of
             Returned u s1 \<Rightarrow> Returned () s1
           | Raised e s1 \<Rightarrow> Returned () s1
           | Blocked s1 \<Rightarrow> Blocked s1))"

section \<open>The thread of one connection\<close>

text \<open>
  What one pass of the read loop of \<^verbatim>\<open>_handle_client\<close> meets: data (with the reading of
  \<^verbatim>\<open>time.time()\<close> stored as last activity, and the decoded text), bytes that are not UTF-8,
  a socket timeout (with the time read for the idle check), end of stream, or a read error.
\<close>

datatype recv = Data rat "json option" | Undecodable rat | Timeout rat | Eof | RecvError

definition register_client :: "conn_id \<Rightarrow> sock \<Rightarrow> string \<times> nat \<Rightarrow> rat \<Rightarrow> server \<Rightarrow> unit result" where
  "register_client cid sk addr t s =
     (if clients_lock s then Blocked s
      else Returned ()
        (s\<lparr>clients := AList.update cid
             \<lparr>socket = sk, address = addr, client_type = ''unknown'',
              authenticated = (\<not> auth_enabled s), last_activity = t\<rparr> (clients s)\<rparr>))"

definition touch :: "conn_id \<Rightarrow> rat \<Rightarrow> server \<Rightarrow> unit result" where
  "touch cid t s =
     (if clients_lock s then Blocked s
      else case map_of (clients s) cid of
             Some ci \<Rightarrow> Returned () (s\<lparr>clients := AList.update cid (ci\<lparr>last_activity := t\<rparr>) (clients s)\<rparr>)
           | None \<Rightarrow> Returned () s)"

text \<open>
  The read loop over the events the connection meets. The value is True when the loop was
  left (the \<^verbatim>\<open>finally\<close> block comes next), False when the events ran out with the thread
  still reading.
\<close>

fun serve :: "conn_id \<Rightarrow> (recv \<times> readings) list \<Rightarrow> server \<Rightarrow> bool result" where
  "serve cid [] s = Returned False s"
| "serve cid ((ev, rd) # rest) s =
     (case ev of
        Data t message \<Rightarrow>
          (case touch cid t s of
             Returned u s1 \<Rightarrow>
               (case process_message rd cid message s1 of
                  Returned u2 s2 \<Rightarrow> serve cid rest s2
                | Raised e s2 \<Rightarrow> Returned True s2
                | Blocked s2 \<Rightarrow> Blocked s2)
           | Raised e s1 \<Rightarrow> Returned True s1
           | Blocked s1 \<Rightarrow> Blocked s1)
      | Undecodable t \<Rightarrow>
          (case touch cid t s of
             Returned u s1 \<Rightarrow> Returned True s1
           | Raised e s1 \<Rightarrow> Returned True s1
           | Blocked s1 \<Rightarrow> Blocked s1)
      | Timeout t \<Rightarrow>
          (if clients_lock s then Blocked s
           else case map_of (clients s) cid of
                  Some ci \<Rightarrow> (if t - last_activity ci > 120 then Returned True s else serve cid rest s)
                | None \<Rightarrow> serve cid rest s)
      | Eof \<Rightarrow> Returned True s
      | RecvError \<Rightarrow> Returned True s)"

text \<open>
  The \<^verbatim>\<open>finally\<close> block of \<^verbatim>\<open>_handle_client\<close> (lines 242 to 253): close the socket, then
  remove the connection from the registry.
\<close>

definition teardown :: "conn_id \<Rightarrow> sock \<Rightarrow> server \<Rightarrow> unit result" where
  "teardown cid sk s =
     (if clients_lock s
      then Blocked (s\<lparr>sock_errors := AList.update sk ''[Errno 9] Bad file descriptor'' (sock_errors s)\<rparr>)
      else Returned ()
        (s\<lparr>sock_errors := AList.update sk ''[Errno 9] Bad file descriptor'' (sock_errors s),
           clients := AList.delete cid (clients s)\<rparr>))"

text \<open>\<^verbatim>\<open>_handle_client\<close> for the events of one connection. True when the thread has ended.\<close>

definition handle_client ::
    "conn_id \<Rightarrow> sock \<Rightarrow> string \<times> nat \<Rightarrow> rat \<Rightarrow> (recv \<times> readings) list \<Rightarrow> server \<Rightarrow> bool result" where
  "handle_client cid sk addr t evs s =
     (case register_client cid sk addr t s of
        Returned u s1 \<Rightarrow>
          (case serve cid evs s1 of
             Returned left s2 \<Rightarrow>
               (if left then
                  (case teardown cid sk s2 of
                     Returned u2 s3 \<Rightarrow> Returned True s3
                   | Raised e s3 \<Rightarrow> Raised e s3
                   | Blocked s3 \<Rightarrow> Blocked s3)
                else Returned False s2)
           | Raised e s2 \<Rightarrow> Raised e s2
           | Blocked s2 \<Rightarrow> Blocked s2)
      | Raised e s1 \<Rightarrow> Raised e s1
      | Blocked s1 \<Rightarrow> Blocked s1)"

section \<open>The command dispatcher\<close>

definition forward_envelope :: "readings \<Rightarrow> command_item \<Rightarrow> json" where
  "forward_envelope rd item =
     JObj [(''command'', command item), (''parameters'', parameters item),
           (''requestId'', request_id item), (''timestamp'', JStr (isoformat rd))]"

text \<open>The \<^verbatim>\<open>except Exception\<close> of \<^verbatim>\<open>_execute_command\<close> (lines 447 to 453).\<close>

definition report_failure :: "command_item \<Rightarrow> exn \<Rightarrow> server \<Rightarrow> unit result" where
  "report_failure item e s =
     discard (send_to_client (client_id item)
       (error_reply (request_id item) (''Error executing command: '' @ str_exn e)) s)"

text \<open>
  \<^verbatim>\<open>_execute_command\<close> up to the wait loop (lines 390 to 422). The value is None when the
  function has returned, and the start time when it enters the loop.
\<close>

definition execute_command_send :: "readings \<Rightarrow> command_item \<Rightarrow> server \<Rightarrow> rat option result" where
  "execute_command_send rd item s =
     (case mt5_connection s of
        None \<Rightarrow>
          (case send_to_client (client_id item)
                  (error_reply (request_id item) ''MetaTrader EA not connected'') s of
             Returned b s1 \<Rightarrow> Returned None s1
           | Raised e s1 \<Rightarrow> Raised e s1
           | Blocked s1 \<Rightarrow> Blocked s1)
      | Some sk \<Rightarrow>
          (case sendall sk (forward_envelope rd item) s of
             Inl e \<Rightarrow>
               (case report_failure item e s of
                  Returned u s1 \<Rightarrow> Returned None s1
                | Raised e1 s1 \<Rightarrow> Raised e1 s1
                | Blocked s1 \<Rightarrow> Blocked s1)
           | Inr s1 \<Rightarrow> Returned (Some (time_now rd)) s1))"

text \<open>
  One test of the loop condition at clock reading \<open>t\<close>, with the body or the timeout exit
  that follows (lines 424 to 445). True when \<^verbatim>\<open>_execute_command\<close> has returned, False when
  the loop sleeps and goes round again.
\<close>

definition execute_command_poll :: "rat \<Rightarrow> command_item \<Rightarrow> rat \<Rightarrow> server \<Rightarrow> bool result" where
  "execute_command_poll t item start_time s =
     (if t - start_time < 30 then
        (if cache_lock s then Blocked s
         else case key_of (request_id item) of
                Inl e \<Rightarrow>
                  (case report_failure item e s of
                     Returned u s1 \<Rightarrow> Returned True s1
                   | Raised e1 s1 \<Rightarrow> Raised e1 s1
                   | Blocked s1 \<Rightarrow> Blocked s1)
              | Inr k \<Rightarrow>
                  (case map_of (response_cache s) k of
                     None \<Rightarrow> Returned False s
                   | Some entry \<Rightarrow>
                       (case send_to_client (client_id item) (entry_data entry)
                               (s\<lparr>cache_lock := True,
                                  response_cache := AList.delete k (response_cache s)\<rparr>) of
                          Returned b s1 \<Rightarrow> Returned True (s1\<lparr>cache_lock := False\<rparr>)
                        | Raised e s1 \<Rightarrow> Raised e (s1\<lparr>cache_lock := False\<rparr>)
                        | Blocked s1 \<Rightarrow> Blocked s1)))
      else
        (case send_to_client (client_id item)
                (error_reply (request_id item) ''Timeout waiting for response from MetaTrader'') s of
           Returned b s1 \<Rightarrow> Returned True s1
         | Raised e s1 \<Rightarrow> Raised e s1
         | Blocked s1 \<Rightarrow> Blocked s1))"

text \<open>
  The wait loop over the successive readings of the clock, with no other thread changing
  the server in between. None: the readings ran out and the loop is still running.
\<close>

fun wait_for_response :: "command_item \<Rightarrow> rat \<Rightarrow> rat list \<Rightarrow> server \<Rightarrow> unit result option" where
  "wait_for_response item start_time [] s = None"
| "wait_for_response item start_time (t # ts) s =
     (case execute_command_poll t item start_time s of
        Returned finished s1 \<Rightarrow>
          (if finished then Some (Returned () s1) else wait_for_response item start_time ts s1)
      | Raised e s1 \<Rightarrow> Some (Raised e s1)
      | Blocked s1 \<Rightarrow> Some (Blocked s1))"

definition execute_command :: "readings \<Rightarrow> command_item \<Rightarrow> rat list \<Rightarrow> server \<Rightarrow> unit result option" where
  "execute_command rd item ts s =
     (case execute_command_send rd item s of
        Returned waiting s1 \<Rightarrow>
          (case waiting of
             None \<Rightarrow> Some (Returned () s1)
           | Some start_time \<Rightarrow> wait_for_response item start_time ts s1)
      | Raised e s1 \<Rightarrow> Some (Raised e s1)
      | Blocked s1 \<Rightarrow> Some (Blocked s1))"

text \<open>
  One pass of the loop of \<^verbatim>\<open>_process_command_queue\<close>: pop the head of the queue and
  execute it, or sleep when the queue is empty.
\<close>

definition process_command_queue :: "readings \<Rightarrow> rat list \<Rightarrow> server \<Rightarrow> unit result option" where
  "process_command_queue rd ts s =
     (case command_queue s of
        [] \<Rightarrow> Some (Returned () s)
      | item # rest \<Rightarrow> execute_command rd item ts (s\<lparr>command_queue := rest\<rparr>))"

section \<open>Runs of the server\<close>

text \<open>
  The server as \<^verbatim>\<open>__init__\<close> leaves it, and the steps its threads and the transport take:
  a connection is accepted and registered, one pass of a connection's read loop, the
  \<^verbatim>\<open>finally\<close> block of a connection, the dispatcher taking a command and sending it, one
  poll of the dispatcher's wait loop, a cache sweep, and a socket that starts to fail. A run
  is any sequence of steps; a step of a thread that waits for a lock leaves the state as the
  wait found it. Every interleaving of the threads at the grain of these steps is a run.
  \<^verbatim>\<open>stop\<close> ends the server and is not a step; it is the one place where the source sets
  \<^verbatim>\<open>mt5_connection\<close> back to \<^verbatim>\<open>None\<close>.
\<close>

datatype action =
    Accept conn_id sock "string \<times> nat" rat
  | Receive conn_id recv readings
  | Close conn_id sock
  | Dispatch readings
  | Poll rat command_item rat
  | Sweep rat
  | SocketFails sock string

definition initial :: "(string \<times> token_info) list \<Rightarrow> bool \<Rightarrow> server" where
  "initial tokens auth =
     \<lparr>auth_enabled = auth, auth_tokens = tokens, clients = [], mt5_connection = None,
      command_queue = [], response_cache = [], clients_lock = False, cache_lock = False,
      sock_errors = [], wire = []\<rparr>"

fun perform :: "action \<Rightarrow> server \<Rightarrow> server" where
  "perform (Accept cid sk addr t) s = state_of (register_client cid sk addr t s)"
| "perform (Receive cid ev rd) s = state_of (serve cid [(ev, rd)] s)"
| "perform (Close cid sk) s = state_of (teardown cid sk s)"
| "perform (Dispatch rd) s =
     (case command_queue s of
        [] \<Rightarrow> s
      | item # rest \<Rightarrow> state_of (execute_command_send rd item (s\<lparr>command_queue := rest\<rparr>)))"
| "perform (Poll t item start_time) s = state_of (execute_command_poll t item start_time s)"
| "perform (Sweep t) s = state_of (clean_expired_cache t s)"
| "perform (SocketFails sk m) s = s\<lparr>sock_errors := AList.update sk m (sock_errors s)\<rparr>"

fun run :: "action list \<Rightarrow> server \<Rightarrow> server" where
  "run [] s = s"
| "run (a # as) s = run as (perform a s)"


text \<open>The registry lock is held exactly when an upstream link is installed.\<close>

definition lock_follows_link :: "server \<Rightarrow> bool" where
  "lock_follows_link s = (clients_lock s = (mt5_connection s \<noteq> None))"

text \<open>
  No reply has been stored, and no registered connection has the type \<open>mt5_ea\<close> unless the
  registry lock is held.
\<close>

definition no_ea :: "(conn_id \<times> client_info) list \<Rightarrow> bool" where
  "no_ea cs = list_all (\<lambda>kc. client_type (snd kc) \<noteq> ''mt5_ea'') cs"

definition unanswered :: "server \<Rightarrow> bool" where
  "unanswered s = (response_cache s = [] \<and> (clients_lock s \<or> no_ea (clients s)))"

section \<open>Loading the authentication tokens\<close>

text \<open>
  The configuration file as \<^verbatim>\<open>_load_auth_tokens\<close> meets it: absent, present but rejected by
  \<^verbatim>\<open>configparser\<close>, or parsed into sections, each with the items \<^verbatim>\<open>configparser\<close> reports.
  The items of a section are read one at a time, and reading a value can raise (a lone
  \<^verbatim>\<open>%\<close> in it is an interpolation error): \<open>Faulty sections n\<close> is a parsed file in which the
  first \<open>n\<close> items of \<^verbatim>\<open>AUTH_TOKENS\<close> can be read and the next one raises.
\<close>

datatype config_file =
    Missing
  | Unreadable
  | Parsed "(string \<times> (string \<times> string) list) list"
  | Faulty "(string \<times> (string \<times> string) list) list" nat

text \<open>\<^verbatim>\<open>text.split(sep)\<close> for a separator of one character.\<close>

fun split_on :: "char \<Rightarrow> string \<Rightarrow> string list" where
  "split_on sep [] = [[]]"
| "split_on sep (x # xs) =
     (if x = sep then [] # split_on sep xs
      else (case split_on sep xs of w # ws \<Rightarrow> (x # w) # ws | [] \<Rightarrow> [[x]]))"

text \<open>The loop over the items of the \<^verbatim>\<open>AUTH_TOKENS\<close> section (lines 82 to 86).\<close>

fun load_tokens :: "string \<Rightarrow> (string \<times> string) list \<Rightarrow> (string \<times> token_info) list \<Rightarrow> (string \<times> token_info) list" where
  "load_tokens now [] tokens = tokens"
| "load_tokens now ((token, perms) # rest) tokens =
     load_tokens now rest
       (AList.update token \<lparr>permissions = split_on CHR '','' perms, created_at = now\<rparr> tokens)"

text \<open>
  \<^verbatim>\<open>_load_auth_tokens\<close>, given the file, the UUID drawn, the time stamp, and how the write
  of the default token ends: \<open>None\<close> when it succeeds, \<open>Some f\<close> when it raises and leaves the
  file as \<open>f\<close> (the exception is logged). The value is the token store and the file afterwards.
  An exception raised while the items are read is logged too, and the tokens stored before
  it are returned.
\<close>

definition load_auth_tokens ::
    "config_file \<Rightarrow> string \<Rightarrow> string \<Rightarrow> config_file option \<Rightarrow> (string \<times> token_info) list \<times> config_file" where
  "load_auth_tokens file default_token now write_failure =
     (case file of
        Missing \<Rightarrow>
          ([(default_token, \<lparr>permissions = [''all''], created_at = now\<rparr>)],
           (case write_failure of
              None \<Rightarrow> Parsed [(''AUTH_TOKENS'', [(default_token, ''all'')])]
            | Some f \<Rightarrow> f))
      | Unreadable \<Rightarrow> ([], file)
      | Parsed sections \<Rightarrow>
          (case map_of sections ''AUTH_TOKENS'' of
             Some items \<Rightarrow> (load_tokens now items [], file)
           | None \<Rightarrow> ([], file))
      | Faulty sections n \<Rightarrow>
          (case map_of sections ''AUTH_TOKENS'' of
             Some items \<Rightarrow> (load_tokens now (take n items) [], file)
           | None \<Rightarrow> ([], file)))"

section \<open>The client\<close>

text \<open>
  The fields of \<^verbatim>\<open>MCPClient\<close> that \<^verbatim>\<open>send_command\<close> and \<^verbatim>\<open>_process_response\<close> use. A
  callback is the client's own synchronous one or a caller's function, named by a number;
  \<open>delivered\<close> records the calls of the caller's functions, \<open>outbox\<close> what was written to the
  socket, and \<open>send_error\<close> is the text of the exception \<^verbatim>\<open>sendall\<close> raises, if it does.
\<close>

datatype callback = SyncCallback | UserCallback nat

record client =
  c_connected :: bool
  c_auth_token :: "string option"
  c_authenticated :: bool
  callbacks :: "(key \<times> callback) list"
  default_callback :: "nat option"
  last_response :: "json option"
  response_event :: bool
  outbox :: "json list"
  send_error :: "string option"
  delivered :: "(nat \<times> json) list"

text \<open>Python truth of a decoded value.\<close>

fun py_truthy :: "json \<Rightarrow> bool" where
  "py_truthy JNull = False"
| "py_truthy (JBool b) = b"
| "py_truthy (JNum r) = (if r = 0 then False else True)"
| "py_truthy (JStr t) = (if t = [] then False else True)"
| "py_truthy (JArr xs) = (if xs = [] then False else True)"
| "py_truthy (JObj kvs) = (if kvs = [] then False else True)"

definition run_callback :: "callback \<Rightarrow> json \<Rightarrow> client \<Rightarrow> client" where
  "run_callback cb response c =
     (case cb of
        SyncCallback \<Rightarrow> c\<lparr>last_response := Some response, response_event := True\<rparr>
      | UserCallback f \<Rightarrow> c\<lparr>delivered := delivered c @ [(f, response)]\<rparr>)"

definition run_default :: "json \<Rightarrow> client \<Rightarrow> client" where
  "run_default response c =
     (case default_callback c of
        Some f \<Rightarrow> c\<lparr>delivered := delivered c @ [(f, response)]\<rparr>
      | None \<Rightarrow> c)"

text \<open>
  \<^verbatim>\<open>_process_response\<close>. A text that does not decode, a value without \<^verbatim>\<open>get\<close> and an
  unhashable request identifier end in an \<^verbatim>\<open>except\<close> clause that only logs.
\<close>

definition process_response :: "json option \<Rightarrow> client \<Rightarrow> client" where
  "process_response message c =
     (case message of
        None \<Rightarrow> c
      | Some response \<Rightarrow>
          (case py_get response ''requestId'' JNull of
             Inl e \<Rightarrow> c
           | Inr rid \<Rightarrow>
               (if py_truthy rid then
                  (case key_of rid of
                     Inl e \<Rightarrow> c
                   | Inr k \<Rightarrow>
                       (case map_of (callbacks c) k of
                          None \<Rightarrow> run_default response c
                        | Some cb \<Rightarrow>
                            run_default response
                              (run_callback cb response
                                 (if cb = SyncCallback then c
                                  else c\<lparr>callbacks := AList.delete k (callbacks c)\<rparr>))))
                else run_default response c)))"

text \<open>
  The receive thread while a synchronous call waits on the event: it handles the messages
  in turn, and the caller resumes as soon as the event is set. When the list ends with the
  event still clear, the wait has timed out.
\<close>

fun await_response :: "json option list \<Rightarrow> client \<Rightarrow> client" where
  "await_response [] c = c"
| "await_response (m # ms) c =
     (if response_event (process_response m c) then process_response m c
      else await_response ms (process_response m c))"

definition command_message :: "client \<Rightarrow> string \<Rightarrow> json \<Rightarrow> json \<Rightarrow> json" where
  "command_message c rid cmd params =
     JObj ([(''command'', cmd), (''requestId'', JStr rid),
            (''parameters'', (if py_truthy params then params else JObj []))]
           @ (case c_auth_token c of
                Some tok \<Rightarrow> (if tok = [] then [] else [(''auth'', JStr tok)])
              | None \<Rightarrow> []))"

definition client_error :: "string \<Rightarrow> json" where
  "client_error msg = JObj [(''status'', JStr ''error''), (''message'', JStr msg)]"

text \<open>
  \<^verbatim>\<open>send_command\<close>, given the UUID drawn for the request and the messages the receive
  thread handles while the call waits. The value is what the call returns, and the client.
\<close>

definition send_command ::
    "string \<Rightarrow> json \<Rightarrow> json \<Rightarrow> nat option \<Rightarrow> json option list \<Rightarrow> client \<Rightarrow> json \<times> client" where
  "send_command rid cmd params callback incoming c =
     (if \<not> c_connected c then (client_error ''Not connected to MCP Server'', c)
      else if (case c_auth_token c of Some tok \<Rightarrow> tok \<noteq> [] | None \<Rightarrow> False) \<and> \<not> c_authenticated c
      then (client_error ''Not authenticated with MCP Server'', c)
      else
        (case callback of
           Some f \<Rightarrow>
             (case send_error c of
                Some m \<Rightarrow>
                  (client_error m,
                   c\<lparr>callbacks := AList.update (KStr rid) (UserCallback f) (callbacks c)\<rparr>)
              | None \<Rightarrow>
                  (JObj [(''status'', JStr ''sent''), (''requestId'', JStr rid)],
                   c\<lparr>callbacks := AList.update (KStr rid) (UserCallback f) (callbacks c),
                     outbox := outbox c @ [command_message c rid cmd params]\<rparr>))
         | None \<Rightarrow>
             (case send_error c of
                Some m \<Rightarrow>
                  (client_error m,
                   c\<lparr>response_event := False, last_response := None,
                     callbacks := AList.update (KStr rid) SyncCallback (callbacks c)\<rparr>)
              | None \<Rightarrow>
                  (let c1 = await_response incoming
                              (c\<lparr>response_event := False, last_response := None,
                                 callbacks := AList.update (KStr rid) SyncCallback (callbacks c),
                                 outbox := outbox c @ [command_message c rid cmd params]\<rparr>)
                   in if \<not> response_event c1
                      then (client_error ''Response timeout'',
                            c1\<lparr>callbacks := AList.delete (KStr rid) (callbacks c1)\<rparr>)
                      else (case last_response c1 of
                              Some r \<Rightarrow> (if py_truthy r then (r, c1) else (client_error ''Empty response'', c1))
                            | None \<Rightarrow> (client_error ''Empty response'', c1))))))"

text \<open>
  A message fires the synchronous callback when it decodes to a dictionary whose
  \<^verbatim>\<open>requestId\<close> is true in Python's sense and is registered to that callback.
\<close>

definition fires_sync :: "(key \<times> callback) list \<Rightarrow> json option \<Rightarrow> bool" where
  "fires_sync cbs message =
     (case message of
        None \<Rightarrow> False
      | Some response \<Rightarrow>
          (case py_get response ''requestId'' JNull of
             Inl e \<Rightarrow> False
           | Inr rid \<Rightarrow>
               (if py_truthy rid then
                  (case key_of rid of
                     Inl e \<Rightarrow> False
                   | Inr k \<Rightarrow> (case map_of cbs k of Some cb \<Rightarrow> cb = SyncCallback | None \<Rightarrow> False))
                else False)))"

text \<open>Two callback tables agree on which request identifiers the synchronous callback owns.\<close>

definition same_sync :: "(key \<times> callback) list \<Rightarrow> (key \<times> callback) list \<Rightarrow> bool" where
  "same_sync cbs cbs' = (\<forall>k. (map_of cbs k = Some SyncCallback) = (map_of cbs' k = Some SyncCallback))"

section \<open>Example states\<close>

text \<open>Concrete readings, connections and servers on which the theorems below are run.\<close>

definition rd0 :: readings where
  "rd0 = \<lparr>time_now = 100, uuid4 = ''generated-id'', isoformat = ''2024-05-01T10:00:00'',
          py_repr = (\<lambda>v. ''<value>'')\<rparr>"

definition alice :: client_info where
  "alice = \<lparr>socket = 1, address = (''127.0.0.1'', 50001), client_type = ''unknown'',
            authenticated = False, last_activity = 0\<rparr>"

text \<open>A server with one token and one connection that has not authenticated; no EA.\<close>

definition server0 :: server where
  "server0 = \<lparr>auth_enabled = True,
     auth_tokens = [(''secret'', \<lparr>permissions = [''all''], created_at = ''2024-05-01T09:00:00''\<rparr>)],
     clients = [(''c1'', alice)], mt5_connection = None, command_queue = [], response_cache = [],
     clients_lock = False, cache_lock = False, sock_errors = [], wire = []\<rparr>"

text \<open>A cache with entries stored at times 399, 400 and 990.\<close>

definition cache0 :: "(key \<times> cache_entry) list" where
  "cache0 = [(KStr ''old'', \<lparr>entry_data = JObj [(''responseToId'', JStr ''old'')], entry_timestamp = 399\<rparr>),
             (KStr ''edge'', \<lparr>entry_data = JObj [(''responseToId'', JStr ''edge'')], entry_timestamp = 400\<rparr>),
             (KStr ''new'', \<lparr>entry_data = JObj [(''responseToId'', JStr ''new'')], entry_timestamp = 990\<rparr>)]"

text \<open>
  The same server once the connection has authenticated, the request of the end-to-end
  scenario, the queue entry it becomes and the acknowledgement sent for it.
\<close>

definition server1 :: server where
  "server1 = server0\<lparr>clients := [(''c1'', alice\<lparr>authenticated := True\<rparr>)]\<rparr>"

definition get_price_r1 :: json where
  "get_price_r1 = JObj [(''command'', JStr ''get_price''), (''requestId'', JStr ''r1''),
                        (''parameters'', JObj [(''symbol'', JStr ''EURUSD'')])]"

definition item_r1 :: command_item where
  "item_r1 = \<lparr>client_id = ''c1'', command = JStr ''get_price'',
              parameters = JObj [(''symbol'', JStr ''EURUSD'')], request_id = JStr ''r1'',
              enqueued_at = 100\<rparr>"

definition queued_r1 :: json where
  "queued_r1 = JObj [(''status'', JStr ''queued''), (''requestId'', JStr ''r1''),
       (''message'', JStr (''Command '' @ quoted ''get_price'' @ '' queued for processing''))]"

text \<open>
  The end-to-end scenario as a run: a client connects, authenticates and submits the request;
  then the EA connects and declares its identity. \<open>server_q\<close> and \<open>server_ea\<close> are the
  states the two runs end in, \<open>reply_r1\<close> is the reply the EA would send for the request.
\<close>

definition tokens0 :: "(string \<times> token_info) list" where
  "tokens0 = [(''secret'', \<lparr>permissions = [''all''], created_at = ''2024-05-01T09:00:00''\<rparr>)]"

definition identity_msg :: json where
  "identity_msg = JObj [(''identity'', JStr ''MT5_EA'')]"

definition reply_r1 :: json where
  "reply_r1 = JObj [(''command'', JStr ''get_price''), (''responseToId'', JStr ''r1''),
                    (''status'', JStr ''ok''), (''price'', JNum (219 / 200))]"

definition client_run :: "action list" where
  "client_run =
     [Accept ''c1'' 1 (''127.0.0.1'', 50001) 0,
      Receive ''c1'' (Data 0 (Some (JObj [(''auth'', JStr ''secret'')]))) rd0,
      Receive ''c1'' (Data 0 (Some get_price_r1)) rd0]"

definition ea_run :: "action list" where
  "ea_run = client_run @
     [Accept ''ea'' 2 (''127.0.0.1'', 50002) 101,
      Receive ''ea'' (Data 102 (Some identity_msg)) rd0]"

definition server_q :: server where
  "server_q = server1\<lparr>command_queue := [item_r1], wire := [(1, auth_ok_reply), (1, queued_r1)]\<rparr>"

definition ea_info :: client_info where
  "ea_info = \<lparr>socket = 2, address = (''127.0.0.1'', 50002), client_type = ''mt5_ea'',
              authenticated = False, last_activity = 102\<rparr>"

definition server_ea :: server where
  "server_ea = server_q\<lparr>clients := [(''c1'', alice\<lparr>authenticated := True\<rparr>), (''ea'', ea_info)],
                 mt5_connection := Some 2, clients_lock := True\<rparr>"

text \<open>
  A second scenario: the client connects and, before it has sent anything, the EA connects
  and declares its identity. \<open>server_late\<close> is the state that run ends in.
\<close>

definition late_run :: "action list" where
  "late_run =
     [Accept ''c1'' 1 (''127.0.0.1'', 50001) 0,
      Accept ''ea'' 2 (''127.0.0.1'', 50002) 101,
      Receive ''ea'' (Data 102 (Some identity_msg)) rd0]"

definition server_late :: server where
  "server_late = server0\<lparr>clients := [(''c1'', alice), (''ea'', ea_info)],
                   mt5_connection := Some 2, clients_lock := True\<rparr>"

text \<open>A client that is connected, holds no token and has made no call yet, and server messages.\<close>

definition client0 :: client where
  "client0 = \<lparr>c_connected = True, c_auth_token = None, c_authenticated = False, callbacks = [],
     default_callback = None, last_response = None, response_event = False, outbox = [],
     send_error = None, delivered = []\<rparr>"

definition not_connected_r1 :: json where
  "not_connected_r1 = JObj [(''status'', JStr ''error''), (''requestId'', JStr ''r1''),
                            (''message'', JStr ''MetaTrader EA not connected'')]"

definition queued_r2 :: json where
  "queued_r2 = JObj [(''status'', JStr ''queued''), (''requestId'', JStr ''r2''),
       (''message'', JStr (''Command '' @ quoted ''get_price'' @ '' queued for processing''))]"

section \<open>Properties of the cache sweep\<close>

lemma delete_keys_filter:
  "delete_keys ks cache = filter (\<lambda>kv. fst kv \<notin> set ks) cache"
proof (induction ks arbitrary: cache)
  case Nil
  show ?case by simp
next
  case (Cons k ks)
  have "AList.delete k cache = filter (\<lambda>kv. fst kv \<noteq> k) cache"
    by (induction cache) auto
  then show ?case using Cons.IH [of "AList.delete k cache"]
    by (simp add: conj_commute)
qed

lemma expired_keys_set:
  "k \<in> set (expired_keys t cache) \<longleftrightarrow> (\<exists>v. (k, v) \<in> set cache \<and> \<not> fresh t (k, v))"
proof (induction cache)
  case Nil
  show ?case by simp
next
  case (Cons kv cache)
  obtain k' v' where kv: "kv = (k', v')" by (cases kv)
  show ?case
  proof (cases "t - entry_timestamp v' > 600")
    case True
    then show ?thesis using Cons.IH by (auto simp: kv fresh_def)
  next
    case False
    then show ?thesis using Cons.IH by (auto simp: kv fresh_def)
  qed
qed

lemma sweep_filter:
  assumes "distinct (map fst cache)"
  shows "delete_keys (expired_keys t cache) cache = filter (fresh t) cache"
proof -
  have "fst kv \<notin> set (expired_keys t cache) \<longleftrightarrow> fresh t kv" if "kv \<in> set cache" for kv
  proof -
    obtain k v where kv: "kv = (k, v)" by (cases kv)
    have same: "v' = v" if "(k, v') \<in> set cache" for v'
      using eq_key_imp_eq_value [OF assms, of k v' v] that \<open>kv \<in> set cache\<close> kv by simp
    have "k \<in> set (expired_keys t cache) \<longleftrightarrow> \<not> fresh t (k, v)"
      unfolding expired_keys_set using same \<open>kv \<in> set cache\<close> kv by blast
    then show ?thesis by (simp add: kv)
  qed
  then show ?thesis
    by (simp add: delete_keys_filter cong: filter_cong)
qed

text \<open>
  Claim C8. One sweep at time \<open>t\<close> (when the cache lock is free, and the cache being a
  dictionary: no key twice) returns, keeps exactly the entries whose age at \<open>t\<close> is at most
  600 seconds, each unchanged and in its place, removes every entry older than that, and
  changes nothing else of the server.
\<close>

theorem clean_expired_cache_sweeps:
  assumes "distinct (map fst (response_cache s))" and "\<not> cache_lock s"
  shows "clean_expired_cache t s = Returned () (s\<lparr>response_cache := filter (fresh t) (response_cache s)\<rparr>)"
  using assms by (simp add: clean_expired_cache_def sweep_filter)

theorem clean_expired_cache_sweeps_witness:
  "clean_expired_cache 1000 (server0\<lparr>response_cache := cache0\<rparr>) =
     Returned () (server0\<lparr>response_cache :=
       [(KStr ''edge'', \<lparr>entry_data = JObj [(''responseToId'', JStr ''edge'')], entry_timestamp = 400\<rparr>),
        (KStr ''new'', \<lparr>entry_data = JObj [(''responseToId'', JStr ''new'')], entry_timestamp = 990\<rparr>)]\<rparr>)"
  using clean_expired_cache_sweeps [where s = "server0\<lparr>response_cache := cache0\<rparr>" and t = 1000]
  by (simp add: server0_def cache0_def fresh_def)

section \<open>Properties of message handling\<close>

lemmas message_defs = process_message_def process_decoded_def is_identity_def auth_step_def
  command_gate_def handshake_def process_command_def store_response_def enqueue_command_def
  identify_def is_client_authenticated_def authenticate_client_def token_known_def
  get_client_type_def send_to_client_def sendall_def discard_def

lemma contains_map_of: "py_contains k (JObj kvs) = Inr (map_of kvs k \<noteq> None)"
  by (simp add: map_of_eq_None_iff)

text \<open>
  The lemmas of this section describe \<^verbatim>\<open>_process_message\<close> while the registry lock is free,
  which in a run is until an EA identifies (\<open>lock_held_iff_linked\<close> below).

  With authentication enabled, a registered connection that is not authenticated and whose
  socket takes the write sends \<open>{"auth": T}\<close>. When \<open>T\<close> is a token of the store, the
  connection becomes authenticated and is sent the reply with status \<open>authenticated\<close>;
  otherwise it is sent the error \<open>Authentication failed\<close> and the server, the flag included,
  is otherwise unchanged.
\<close>

lemma auth_handshake:
  assumes "auth_enabled s" and "\<not> clients_lock s"
    and "map_of (clients s) cid = Some ci" and "\<not> authenticated ci"
    and "map_of (sock_errors s) (socket ci) = None"
  shows "process_message rd cid (Some (JObj [(''auth'', JStr T)])) s =
     (if T \<in> set (map fst (auth_tokens s))
      then Returned ()
        (s\<lparr>clients := AList.update cid (ci\<lparr>authenticated := True\<rparr>) (clients s),
           wire := wire s @ [(socket ci,
             JObj [(''status'', JStr ''authenticated''), (''message'', JStr ''Authentication successful'')])]\<rparr>)
      else Returned ()
        (s\<lparr>wire := wire s @ [(socket ci,
             JObj [(''status'', JStr ''error''), (''message'', JStr ''Authentication failed'')])]\<rparr>))"
  using assms
  by (simp add: message_defs auth_ok_reply_def auth_failed_reply_def update_conv')

lemma auth_handshake_on_server0:
  "process_message rd0 ''c1'' (Some (JObj [(''auth'', JStr ''secret'')])) server0 =
     Returned () (server0\<lparr>clients := [(''c1'', alice\<lparr>authenticated := True\<rparr>)],
       wire := [(1, JObj [(''status'', JStr ''authenticated''), (''message'', JStr ''Authentication successful'')])]\<rparr>)
   \<and> process_message rd0 ''c1'' (Some (JObj [(''auth'', JStr ''guess'')])) server0 =
     Returned () (server0\<lparr>wire := [(1, JObj [(''status'', JStr ''error''), (''message'', JStr ''Authentication failed'')])]\<rparr>)"
  using auth_handshake [where s = server0 and cid = "''c1''" and ci = alice and rd = rd0 and T = "''secret''"]
    auth_handshake [where s = server0 and cid = "''c1''" and ci = alice and rd = rd0 and T = "''guess''"]
  by (simp add: server0_def alice_def)

text \<open>
  With authentication enabled, a decoded message that is neither the identity declaration
  nor an authentication attempt (both tests of \<^verbatim>\<open>_process_message\<close> are false) from a
  connection that is not authenticated is answered with the error \<open>Not authenticated\<close>, and
  nothing else of the server changes: the queue keeps its entries.
\<close>

lemma unauthenticated_rejected:
  assumes "auth_enabled s" and "\<not> clients_lock s"
    and "map_of (clients s) cid = Some ci" and "\<not> authenticated ci"
    and "map_of (sock_errors s) (socket ci) = None"
    and "is_identity d = Inr False" and "py_contains ''auth'' d = Inr False"
  shows "process_message rd cid (Some d) s =
     Returned () (s\<lparr>wire := wire s @ [(socket ci,
        JObj [(''status'', JStr ''error''), (''message'', JStr ''Not authenticated'')])]\<rparr>)"
  using assms
  by (simp add: process_message_def process_decoded_def auth_step_def command_gate_def
      is_client_authenticated_def send_to_client_def sendall_def discard_def not_authenticated_reply_def)

lemma unauthenticated_rejected_on_server0:
  "process_message rd0 ''c1''
     (Some (JObj [(''command'', JStr ''get_price''), (''requestId'', JStr ''r1'')])) server0 =
     Returned () (server0\<lparr>wire := [(1,
        JObj [(''status'', JStr ''error''), (''message'', JStr ''Not authenticated'')])]\<rparr>)
   \<and> command_queue (state_of (process_message rd0 ''c1''
     (Some (JObj [(''command'', JStr ''get_price''), (''requestId'', JStr ''r1'')])) server0)) = []"
  using unauthenticated_rejected [where s = server0 and cid = "''c1''" and ci = alice and rd = rd0
      and d = "JObj [(''command'', JStr ''get_price''), (''requestId'', JStr ''r1'')]"]
  by (simp add: server0_def alice_def is_identity_def)

text \<open>
  A message from a connection that is not yet authenticated, carrying a hashable \<open>auth\<close>
  value and not declaring the EA identity, is answered with the outcome of the handshake
  only: the authenticated flag and one reply are all that changes, whatever else the message
  carries; the queue and the response cache stay as they were.
\<close>

lemma auth_message_only_handshake:
  assumes "auth_enabled s" and "\<not> clients_lock s"
    and "map_of (clients s) cid = Some ci" and "\<not> authenticated ci"
    and "map_of (sock_errors s) (socket ci) = None"
    and "map_of kvs ''auth'' = Some tok" and "key_of tok = Inr k"
    and "map_of kvs ''identity'' \<noteq> Some (JStr ''MT5_EA'')"
  shows "process_message rd cid (Some (JObj kvs)) s =
     (if token_known tok (auth_tokens s) = Inr True
      then Returned ()
        (s\<lparr>clients := AList.update cid (ci\<lparr>authenticated := True\<rparr>) (clients s),
           wire := wire s @ [(socket ci, auth_ok_reply)]\<rparr>)
      else Returned () (s\<lparr>wire := wire s @ [(socket ci, auth_failed_reply)]\<rparr>))"
proof -
  have ident: "is_identity (JObj kvs) = Inr False"
    using assms(8) by (cases "map_of kvs ''identity''") (simp_all add: is_identity_def contains_map_of del: py_contains.simps)
  have has: "py_contains ''auth'' (JObj kvs) = Inr True"
    using assms(6) by (simp add: contains_map_of del: py_contains.simps)
  have get: "py_getitem (JObj kvs) ''auth'' = Inr tok"
    using assms(6) by simp
  have "\<exists>b. token_known tok (auth_tokens s) = Inr b"
    using assms(7) by (cases k) (auto simp: token_known_def)
  then obtain b where known: "token_known tok (auth_tokens s) = Inr b" ..
  show ?thesis
    using assms(1-5) ident has get known
    by (cases b) (simp_all add: process_message_def process_decoded_def auth_step_def handshake_def
        is_client_authenticated_def authenticate_client_def send_to_client_def sendall_def
        discard_def update_conv')
qed

lemma auth_message_only_handshake_on_server0:
  "process_message rd0 ''c1''
     (Some (JObj [(''auth'', JStr ''secret''), (''command'', JStr ''get_price''), (''requestId'', JStr ''r1'')]))
     server0 =
   Returned () (server0\<lparr>clients := [(''c1'', alice\<lparr>authenticated := True\<rparr>)],
     wire := [(1, auth_ok_reply)]\<rparr>)"
  using auth_message_only_handshake [where s = server0 and cid = "''c1''" and ci = alice and rd = rd0
      and kvs = "[(''auth'', JStr ''secret''), (''command'', JStr ''get_price''), (''requestId'', JStr ''r1'')]"
      and tok = "JStr ''secret''" and k = "KStr ''secret''"]
  by (simp add: server0_def alice_def token_known_def)

text \<open>
  On a message that carries both the identity marker and a token the identity branch runs
  first: no handshake takes place.
\<close>

lemma identity_wins_over_auth:
  "process_message rd0 ''c1''
     (Some (JObj [(''identity'', JStr ''MT5_EA''), (''auth'', JStr ''secret'')])) server0 =
   Blocked (server0\<lparr>clients_lock := True,
     clients := [(''c1'', alice\<lparr>client_type := ''mt5_ea''\<rparr>)], mt5_connection := Some 1\<rparr>)"
  by (simp add: message_defs server0_def alice_def)

section \<open>Properties of token loading\<close>

text \<open>
  Claim C7, as amended. When the configuration file does not exist, the store holds exactly
  one token, the UUID drawn, with the permission \<open>all\<close>; the file is written with that token
  when the write succeeds and is left as the failed write left it otherwise. The token is
  known to the store, and a later start that reads the written file loads the same token
  with the same permission.
\<close>

theorem default_token_when_file_missing:
  "load_auth_tokens Missing u now outcome =
     ([(u, \<lparr>permissions = [''all''], created_at = now\<rparr>)],
      (case outcome of None \<Rightarrow> Parsed [(''AUTH_TOKENS'', [(u, ''all'')])] | Some f \<Rightarrow> f))
   \<and> token_known (JStr u) (fst (load_auth_tokens Missing u now outcome)) = Inr True
   \<and> fst (load_auth_tokens (Parsed [(''AUTH_TOKENS'', [(u, ''all'')])]) u2 now2 outcome2) =
       [(u, \<lparr>permissions = [''all''], created_at = now2\<rparr>)]"
  by (simp add: load_auth_tokens_def token_known_def)

text \<open>Whenever the file exists, the UUID drawn plays no part and the file is left as it is.\<close>

lemma existing_file_no_default:
  assumes "cfg \<noteq> Missing"
  shows "load_auth_tokens cfg u now outcome = load_auth_tokens cfg u' now outcome'
       \<and> snd (load_auth_tokens cfg u now outcome) = cfg"
  using assms by (cases cfg) (simp_all add: load_auth_tokens_def split: option.splits)

text \<open>
  The claim as stated fails when the file exists and configures no token: nothing is
  generated, the store is empty and the file is not touched.
\<close>

theorem no_token_for_existing_file:
  "load_auth_tokens (Parsed [(''SERVER'', [(''host'', ''127.0.0.1''), (''port'', ''5555'')])])
      ''0b3c'' ''2024-05-01T09:00:00'' None =
     ([], Parsed [(''SERVER'', [(''host'', ''127.0.0.1''), (''port'', ''5555'')])])"
  by (simp add: load_auth_tokens_def)

section \<open>The registry lock in every run\<close>

text \<open>
  Each operation keeps the registry lock held exactly when an upstream link is installed;
  the identity branch is the one place that changes either, and it changes both.
\<close>

lemma send_keeps:
  "clients_lock (state_of (send_to_client cid m s)) = clients_lock s
   \<and> mt5_connection (state_of (send_to_client cid m s)) = mt5_connection s"
  by (simp add: send_to_client_def sendall_def split: option.splits)

lemma send_keeps_lock: "lock_follows_link s \<Longrightarrow> lock_follows_link (state_of (send_to_client cid m s))"
  by (simp add: lock_follows_link_def send_keeps)

lemma discard_state: "state_of (discard r) = state_of r"
  by (cases r) (simp_all add: discard_def)

lemma then_keeps_lock:
  assumes "lock_follows_link (state_of r)"
    and "\<And>v s1. r = Returned v s1 \<Longrightarrow> lock_follows_link (state_of (k v s1))"
  shows "lock_follows_link (state_of (case r of Returned v s1 \<Rightarrow> k v s1 | Raised e s1 \<Rightarrow> Raised e s1 | Blocked s1 \<Rightarrow> Blocked s1))"
  using assms by (cases r) simp_all

lemma is_authenticated_state: "state_of (is_client_authenticated cid s) = s"
  by (simp add: is_client_authenticated_def split: option.splits)

lemma client_type_state: "state_of (get_client_type cid s) = s"
  by (simp add: get_client_type_def split: option.splits)

lemma authenticate_keeps_lock: "lock_follows_link s \<Longrightarrow> lock_follows_link (state_of (authenticate_client cid tok s))"
  by (auto simp: authenticate_client_def lock_follows_link_def split: option.splits sum.splits)

lemma handshake_keeps_lock: "lock_follows_link s \<Longrightarrow> lock_follows_link (state_of (handshake cid d s))"
proof -
  assume f: "lock_follows_link s"
  show ?thesis
  proof (cases "py_getitem d ''auth''")
    case (Inl e)
    then show ?thesis using f by (simp add: handshake_def)
  next
    case (Inr tok)
    have "lock_follows_link (state_of (case authenticate_client cid tok s of
        Returned ok s1 \<Rightarrow> discard (send_to_client cid (if ok then auth_ok_reply else auth_failed_reply) s1)
      | Raised e s1 \<Rightarrow> Raised e s1 | Blocked s1 \<Rightarrow> Blocked s1))"
    proof (rule then_keeps_lock)
      show "lock_follows_link (state_of (authenticate_client cid tok s))" using f by (rule authenticate_keeps_lock)
    next
      fix v s1 assume "authenticate_client cid tok s = Returned v s1"
      then have "lock_follows_link s1" using authenticate_keeps_lock [OF f, of cid tok] by simp
      then show "lock_follows_link (state_of (discard (send_to_client cid (if v then auth_ok_reply else auth_failed_reply) s1)))"
        by (simp add: discard_state send_keeps_lock)
    qed
    then show ?thesis by (simp add: handshake_def Inr)
  qed
qed

lemma store_keeps_lock: "lock_follows_link s \<Longrightarrow> lock_follows_link (state_of (store_response rd d s))"
  by (auto simp: store_response_def lock_follows_link_def split: sum.splits)

lemma enqueue_keeps_lock: "lock_follows_link s \<Longrightarrow> lock_follows_link (state_of (enqueue_command rd cid cmd params rid s))"
proof -
  assume "lock_follows_link s"
  then have "lock_follows_link (s\<lparr>command_queue := command_queue s @
      [\<lparr>client_id = cid, command = cmd, parameters = params, request_id = rid, enqueued_at = time_now rd\<rparr>]\<rparr>)"
    by (simp add: lock_follows_link_def)
  then show ?thesis
    unfolding enqueue_command_def discard_state by (rule send_keeps_lock)
qed

lemma command_keeps_lock: "lock_follows_link s \<Longrightarrow> lock_follows_link (state_of (process_command rd cid d s))"
proof -
  assume f: "lock_follows_link s"
  have step: "lock_follows_link (state_of (case get_client_type cid s of
        Returned ty s1 \<Rightarrow> (if ty = ''mt5_ea'' then store_response rd d s1
                            else enqueue_command rd cid cmd params rid s1)
      | Raised e s1 \<Rightarrow> Raised e s1 | Blocked s1 \<Rightarrow> Blocked s1))" for cmd params rid
  proof (rule then_keeps_lock)
    show "lock_follows_link (state_of (get_client_type cid s))" using f by (simp add: client_type_state)
  next
    fix v s1 assume "get_client_type cid s = Returned v s1"
    then have "s1 = s" using client_type_state [of cid s] by simp
    then show "lock_follows_link (state_of (if v = ''mt5_ea'' then store_response rd d s1
        else enqueue_command rd cid cmd params rid s1))"
      using f by (simp add: store_keeps_lock enqueue_keeps_lock)
  qed
  show ?thesis
    unfolding process_command_def using f step
    by (simp split: sum.splits)
qed

lemma gate_keeps_lock: "lock_follows_link s \<Longrightarrow> lock_follows_link (state_of (command_gate rd cid d s))"
proof -
  assume f: "lock_follows_link s"
  show ?thesis unfolding command_gate_def
  proof (rule then_keeps_lock)
    show "lock_follows_link (state_of (is_client_authenticated cid s))" using f by (simp add: is_authenticated_state)
  next
    fix v s1 assume "is_client_authenticated cid s = Returned v s1"
    then have "s1 = s" using is_authenticated_state [of cid s] by simp
    then show "lock_follows_link (state_of (if v then process_command rd cid d s1
        else discard (send_to_client cid not_authenticated_reply s1)))"
      using f by (simp add: command_keeps_lock discard_state send_keeps_lock)
  qed
qed

lemma auth_step_keeps_lock: "lock_follows_link s \<Longrightarrow> lock_follows_link (state_of (auth_step rd cid d s))"
proof -
  assume f: "lock_follows_link s"
  have step: "lock_follows_link (state_of (case is_client_authenticated cid s of
        Returned authed s1 \<Rightarrow> (if authed then command_gate rd cid d s1 else handshake cid d s1)
      | Raised e s1 \<Rightarrow> Raised e s1 | Blocked s1 \<Rightarrow> Blocked s1))"
  proof (rule then_keeps_lock)
    show "lock_follows_link (state_of (is_client_authenticated cid s))" using f by (simp add: is_authenticated_state)
  next
    fix v s1 assume "is_client_authenticated cid s = Returned v s1"
    then have "s1 = s" using is_authenticated_state [of cid s] by simp
    then show "lock_follows_link (state_of (if v then command_gate rd cid d s1 else handshake cid d s1))"
      using f by (simp add: gate_keeps_lock handshake_keeps_lock)
  qed
  show ?thesis
    unfolding auth_step_def using f step gate_keeps_lock [OF f, of rd cid d]
    by (simp split: sum.splits)
qed

lemma identify_keeps_lock: "lock_follows_link (state_of (identify rd cid s)) \<or> \<not> lock_follows_link s"
  by (auto simp: identify_def send_to_client_def lock_follows_link_def split: option.splits)

lemma decoded_keeps_lock: "lock_follows_link s \<Longrightarrow> lock_follows_link (state_of (process_decoded rd cid d s))"
proof -
  assume f: "lock_follows_link s"
  have step: "lock_follows_link (state_of (case identify rd cid s of
        Returned done s1 \<Rightarrow> (if done then Returned () s1 else auth_step rd cid d s1)
      | Raised e s1 \<Rightarrow> Raised e s1 | Blocked s1 \<Rightarrow> Blocked s1))"
  proof (rule then_keeps_lock)
    show "lock_follows_link (state_of (identify rd cid s))" using f identify_keeps_lock [of rd cid s] by simp
  next
    fix v s1 assume "identify rd cid s = Returned v s1"
    then have "lock_follows_link s1" using f identify_keeps_lock [of rd cid s] by simp
    then show "lock_follows_link (state_of (if v then Returned () s1 else auth_step rd cid d s1))"
      by (simp add: auth_step_keeps_lock)
  qed
  show ?thesis
    unfolding process_decoded_def using f step auth_step_keeps_lock [OF f, of rd cid d]
    by (simp split: sum.splits)
qed

lemma message_keeps_lock: "lock_follows_link s \<Longrightarrow> lock_follows_link (state_of (process_message rd cid m s))"
proof (cases m)
  case None
  assume "lock_follows_link s"
  then show ?thesis by (simp add: None process_message_def discard_state send_keeps_lock)
next
  case (Some d)
  assume "lock_follows_link s"
  from decoded_keeps_lock [OF this, of rd cid d] show ?thesis
    by (cases "process_decoded rd cid d s") (simp_all add: Some process_message_def)
qed

lemma touch_keeps_lock: "lock_follows_link s \<Longrightarrow> lock_follows_link (state_of (touch cid t s))"
  by (auto simp: touch_def lock_follows_link_def split: option.splits)

lemma serve_keeps_lock: "lock_follows_link s \<Longrightarrow> lock_follows_link (state_of (serve cid [(ev, rd)] s))"
proof (cases ev)
  case (Data t m)
  assume f: "lock_follows_link s"
  show ?thesis
  proof (cases "touch cid t s")
    case (Returned u s1)
    then have "lock_follows_link s1" using touch_keeps_lock [OF f, of cid t] by simp
    from message_keeps_lock [OF this, of rd cid m] show ?thesis
      by (cases "process_message rd cid m s1") (simp_all add: Data Returned)
  next
    case (Raised e s1)
    then show ?thesis using touch_keeps_lock [OF f, of cid t] by (simp add: Data)
  next
    case (Blocked s1)
    then show ?thesis using touch_keeps_lock [OF f, of cid t] by (simp add: Data)
  qed
next
  case (Undecodable t)
  assume f: "lock_follows_link s"
  show ?thesis using touch_keeps_lock [OF f, of cid t]
    by (cases "touch cid t s") (simp_all add: Undecodable)
next
  case (Timeout t)
  assume "lock_follows_link s"
  then show ?thesis by (simp add: Timeout split: option.splits)
next
  case Eof
  assume "lock_follows_link s"
  then show ?thesis by (simp add: Eof)
next
  case RecvError
  assume "lock_follows_link s"
  then show ?thesis by (simp add: RecvError)
qed

lemma failure_keeps_lock: "lock_follows_link s \<Longrightarrow> lock_follows_link (state_of (report_failure item e s))"
  by (simp add: report_failure_def discard_state send_keeps_lock)

lemma send_part_keeps_lock: "lock_follows_link s \<Longrightarrow> lock_follows_link (state_of (execute_command_send rd item s))"
proof (cases "mt5_connection s")
  case None
  assume f: "lock_follows_link s"
  from send_keeps_lock [OF f, of "client_id item" "error_reply (request_id item) ''MetaTrader EA not connected''"]
  show ?thesis
    by (cases "send_to_client (client_id item) (error_reply (request_id item) ''MetaTrader EA not connected'') s")
      (simp_all add: execute_command_send_def None)
next
  case (Some sk)
  assume f: "lock_follows_link s"
  show ?thesis
  proof (cases "sendall sk (forward_envelope rd item) s")
    case (Inl e)
    from failure_keeps_lock [OF f, of item e] show ?thesis
      by (cases "report_failure item e s") (simp_all add: execute_command_send_def Some Inl)
  next
    case (Inr s1)
    then have "lock_follows_link s1" using f by (auto simp: sendall_def lock_follows_link_def split: option.splits)
    then show ?thesis by (simp add: execute_command_send_def Some Inr)
  qed
qed

lemma poll_keeps_lock: "lock_follows_link s \<Longrightarrow> lock_follows_link (state_of (execute_command_poll t item start_time s))"
proof -
  assume f: "lock_follows_link s"
  have timeout: "lock_follows_link (state_of (case send_to_client (client_id item) m s of
      Returned b s1 \<Rightarrow> Returned True s1 | Raised e s1 \<Rightarrow> Raised e s1 | Blocked s1 \<Rightarrow> Blocked s1))" for m
    using send_keeps_lock [OF f, of "client_id item" m]
    by (cases "send_to_client (client_id item) m s") simp_all
  have failure: "lock_follows_link (state_of (case report_failure item e s of
      Returned u s1 \<Rightarrow> Returned True s1 | Raised e1 s1 \<Rightarrow> Raised e1 s1 | Blocked s1 \<Rightarrow> Blocked s1))" for e
    using failure_keeps_lock [OF f, of item e]
    by (cases "report_failure item e s") simp_all
  have forward: "lock_follows_link (state_of (case send_to_client (client_id item) m
        (s\<lparr>cache_lock := True, response_cache := c\<rparr>) of
      Returned b s1 \<Rightarrow> Returned True (s1\<lparr>cache_lock := False\<rparr>)
    | Raised e s1 \<Rightarrow> Raised e (s1\<lparr>cache_lock := False\<rparr>) | Blocked s1 \<Rightarrow> Blocked s1))" for m c
  proof -
    have "lock_follows_link (s\<lparr>cache_lock := True, response_cache := c\<rparr>)" using f by (simp add: lock_follows_link_def)
    from send_keeps_lock [OF this, of "client_id item" m] show ?thesis
      by (cases "send_to_client (client_id item) m (s\<lparr>cache_lock := True, response_cache := c\<rparr>)")
        (simp_all add: lock_follows_link_def)
  qed
  show ?thesis
    unfolding execute_command_poll_def using f timeout failure forward
    by (simp split: sum.splits option.splits)
qed

lemma perform_keeps_lock: "lock_follows_link s \<Longrightarrow> lock_follows_link (perform a s)"
proof (cases a)
  case (Accept cid sk addr t)
  assume "lock_follows_link s"
  then show ?thesis by (auto simp: Accept register_client_def lock_follows_link_def)
next
  case (Receive cid ev rd)
  assume "lock_follows_link s"
  then show ?thesis unfolding Receive perform.simps by (rule serve_keeps_lock)
next
  case (Close cid sk)
  assume "lock_follows_link s"
  then show ?thesis by (auto simp: Close teardown_def lock_follows_link_def)
next
  case (Dispatch rd)
  assume f: "lock_follows_link s"
  show ?thesis
  proof (cases "command_queue s")
    case Nil
    then show ?thesis using f by (simp add: Dispatch)
  next
    case (Cons item rest)
    have "lock_follows_link (s\<lparr>command_queue := rest\<rparr>)" using f by (simp add: lock_follows_link_def)
    then show ?thesis by (simp add: Dispatch Cons send_part_keeps_lock)
  qed
next
  case (Poll t item start_time)
  assume "lock_follows_link s"
  then show ?thesis unfolding Poll perform.simps by (rule poll_keeps_lock)
next
  case (Sweep t)
  assume "lock_follows_link s"
  then show ?thesis by (auto simp: Sweep clean_expired_cache_def lock_follows_link_def)
next
  case (SocketFails sk m)
  assume "lock_follows_link s"
  then show ?thesis by (simp add: SocketFails lock_follows_link_def)
qed

lemma run_keeps_lock: "lock_follows_link s \<Longrightarrow> lock_follows_link (run as s)"
  by (induction as arbitrary: s) (simp_all add: perform_keeps_lock)

lemma lock_held_iff_linked:
  "clients_lock (run as (initial tokens auth)) = (mt5_connection (run as (initial tokens auth)) \<noteq> None)"
  using run_keeps_lock [of "initial tokens auth" as] by (simp add: lock_follows_link_def initial_def)

lemma client_run_state: "run client_run (initial tokens0 True) = server_q"
  by (simp add: client_run_def initial_def tokens0_def server_q_def server1_def server0_def
      alice_def item_r1_def queued_r1_def get_price_r1_def rd0_def register_client_def touch_def
      message_defs auth_ok_reply_def queued_ack_def format_value_def)

lemma ea_run_state: "run ea_run (initial tokens0 True) = server_ea"
proof -
  have "run ea_run (initial tokens0 True) =
      run [Accept ''ea'' 2 (''127.0.0.1'', 50002) 101,
           Receive ''ea'' (Data 102 (Some identity_msg)) rd0] server_q"
    using client_run_state by (simp add: ea_run_def client_run_def)
  also have "\<dots> = server_ea"
    by (simp add: server_ea_def server_q_def server1_def server0_def alice_def ea_info_def
        identity_msg_def register_client_def touch_def message_defs)
  finally show ?thesis .
qed

section \<open>Properties of the dispatcher\<close>

lemma run_append: "run (xs @ ys) s = run ys (run xs s)"
  by (induction xs arbitrary: s) simp_all





section \<open>What the identity branch does to the server\<close>

lemmas thread_defs = handle_client_def register_client_def touch_def teardown_def

lemmas dispatcher_defs = process_command_queue_def execute_command_def execute_command_send_def
  execute_command_poll_def report_failure_def forward_envelope_def error_reply_def

lemmas example_defs = server0_def server1_def server_q_def server_ea_def alice_def ea_info_def
  item_r1_def queued_r1_def identity_msg_def reply_r1_def rd0_def get_price_r1_def

lemma locked_send_blocks: "clients_lock s \<Longrightarrow> send_to_client cid m s = Blocked s"
  by (simp add: send_to_client_def)

lemma identify_blocks:
  assumes "\<not> clients_lock s" and "map_of (clients s) cid = Some ci"
  shows "identify rd cid s =
     Blocked (s\<lparr>clients_lock := True,
                clients := AList.update cid (ci\<lparr>client_type := ''mt5_ea''\<rparr>) (clients s),
                mt5_connection := Some (socket ci)\<rparr>)"
  using assms by (simp add: identify_def send_to_client_def)

text \<open>
  Once a run has installed an upstream link, the read loop of every connection, the EA's
  included, blocks on the next data it receives and leaves the server as it was: no further
  message is handled. In the scenario the EA's reply is never read.
\<close>

lemma upstream_data_never_handled:
  assumes "s = run acts (initial tokens auth)" and "mt5_connection s = Some sk"
  shows "serve cid ((Data t m, rd) # rest) s = Blocked s"
proof -
  have "clients_lock s"
    using lock_held_iff_linked [of acts tokens auth] assms by simp
  then show ?thesis by (simp add: touch_def)
qed

lemma ea_reply_never_read:
  "run ea_run (initial tokens0 True) = server_ea
   \<and> mt5_connection server_ea = Some 2
   \<and> serve ''ea'' [(Data 103 (Some reply_r1), rd0)] server_ea = Blocked server_ea
   \<and> response_cache server_ea = []
   \<and> handle_client ''ea'' 2 (''127.0.0.1'', 50002) 101
        [(Data 102 (Some identity_msg), rd0), (Data 103 (Some reply_r1), rd0)] server_q
      = Blocked server_ea"
proof -
  have link: "mt5_connection server_ea = Some 2"
    by (simp add: server_ea_def)
  have "serve ''ea'' [(Data 103 (Some reply_r1), rd0)] server_ea = Blocked server_ea"
    using upstream_data_never_handled [where s = server_ea and acts = ea_run and tokens = tokens0
        and auth = True and sk = 2] ea_run_state link by simp
  moreover have "handle_client ''ea'' 2 (''127.0.0.1'', 50002) 101
        [(Data 102 (Some identity_msg), rd0), (Data 103 (Some reply_r1), rd0)] server_q
      = Blocked server_ea"
    by (simp add: thread_defs message_defs example_defs)
  moreover have "response_cache server_ea = []"
    by (simp add: example_defs)
  ultimately show ?thesis using ea_run_state link by simp
qed

lemma late_run_state: "run late_run (initial tokens0 True) = server_late"
  by (simp add: late_run_def initial_def tokens0_def server_late_def server0_def alice_def
      ea_info_def identity_msg_def register_client_def touch_def message_defs)

lemma linked_run_locked:
  "s = run acts (initial tokens auth) \<Longrightarrow> mt5_connection s = Some sk \<Longrightarrow> clients_lock s"
  using lock_held_iff_linked [of acts tokens auth] by simp

text \<open>
  Claim C3, on the code. In every state a run reaches after an EA has identified, with
  authentication enabled, \<open>{"auth": T}\<close> from any connection is not answered, whatever \<open>T\<close>
  is: the read loop blocks on the registry lock before it calls \<^verbatim>\<open>_process_message\<close>, and
  \<^verbatim>\<open>_process_message\<close> itself would block in \<^verbatim>\<open>_is_client_authenticated\<close>. The server is
  left as it was: no reply is written and the authenticated flag does not change.
\<close>

theorem auth_after_identity_blocks:
  assumes "s = run acts (initial tokens auth)" and "mt5_connection s = Some sk"
    and "auth_enabled s"
  shows "serve cid ((Data t (Some (JObj [(''auth'', JStr T)])), rd) # rest) s = Blocked s
       \<and> process_message rd cid (Some (JObj [(''auth'', JStr T)])) s = Blocked s"
proof -
  have "clients_lock s" using assms(1,2) by (rule linked_run_locked)
  then show ?thesis
    using assms(3)
    by (simp add: touch_def process_message_def process_decoded_def is_identity_def auth_step_def
        is_client_authenticated_def)
qed

theorem auth_after_identity_blocks_witness:
  "run late_run (initial tokens0 True) = server_late
   \<and> map_of (clients server_late) ''c1'' = Some alice \<and> \<not> authenticated alice
   \<and> ''secret'' \<in> set (map fst (auth_tokens server_late))
   \<and> serve ''c1'' [(Data 103 (Some (JObj [(''auth'', JStr ''secret'')])), rd0)] server_late
       = Blocked server_late
   \<and> process_message rd0 ''c1'' (Some (JObj [(''auth'', JStr ''secret'')])) server_late
       = Blocked server_late"
  using auth_after_identity_blocks [where s = server_late and acts = late_run and tokens = tokens0
      and auth = True and sk = 2 and cid = "''c1''" and t = 103 and T = "''secret''" and rd = rd0
      and rest = "[]"] late_run_state
  by (simp add: server_late_def server0_def alice_def)

text \<open>
  Claim C4, on the code. In every state a run reaches after an EA has identified, with
  authentication enabled, a decoded message that is neither the identity declaration nor
  an authentication attempt is not answered: the read loop and \<^verbatim>\<open>_process_message\<close> block
  on the registry lock, and no authentication error is written. In any state, a message
  that decodes to a number raises in the identity test and is dropped without a reply.
\<close>

theorem command_after_identity_unanswered:
  assumes "s = run acts (initial tokens auth)" and "mt5_connection s = Some sk"
    and "auth_enabled s"
    and "is_identity d = Inr False" and "py_contains ''auth'' d = Inr False"
  shows "serve cid ((Data t (Some d), rd) # rest) s = Blocked s
       \<and> process_message rd cid (Some d) s = Blocked s
       \<and> process_message rd cid (Some (JNum n)) s0 = Returned () s0"
proof -
  have "clients_lock s" using assms(1,2) by (rule linked_run_locked)
  then show ?thesis
    using assms(3-5)
    by (simp add: touch_def process_message_def process_decoded_def is_identity_def auth_step_def
        command_gate_def is_client_authenticated_def)
qed

theorem command_after_identity_unanswered_witness:
  "run late_run (initial tokens0 True) = server_late
   \<and> map_of (clients server_late) ''c1'' = Some alice \<and> \<not> authenticated alice
   \<and> serve ''c1'' [(Data 103 (Some get_price_r1), rd0)] server_late = Blocked server_late
   \<and> process_message rd0 ''c1'' (Some get_price_r1) server_late = Blocked server_late
   \<and> process_message rd0 ''c1'' (Some (JNum 5)) server0 = Returned () server0"
  using command_after_identity_unanswered [where s = server_late and acts = late_run
      and tokens = tokens0 and auth = True and sk = 2 and cid = "''c1''" and t = 103
      and d = get_price_r1 and rd = rd0 and rest = "[]" and n = 5 and ?s0.0 = server0] late_run_state
  by (simp add: server_late_def server0_def alice_def get_price_r1_def is_identity_def)

text \<open>
  Claim C9, on the code. In every state a run reaches after an EA has identified, with
  authentication enabled, a message that carries an \<open>auth\<close> value and is not the identity
  declaration is not answered with the outcome of a handshake: the read loop and
  \<^verbatim>\<open>_process_message\<close> block on the registry lock and the server is left as it was.
\<close>

theorem auth_message_after_identity_blocks:
  assumes "s = run acts (initial tokens auth)" and "mt5_connection s = Some sk"
    and "auth_enabled s"
    and "map_of kvs ''auth'' = Some tok"
    and "map_of kvs ''identity'' \<noteq> Some (JStr ''MT5_EA'')"
  shows "serve cid ((Data t (Some (JObj kvs)), rd) # rest) s = Blocked s
       \<and> process_message rd cid (Some (JObj kvs)) s = Blocked s"
proof -
  have lock: "clients_lock s" using assms(1,2) by (rule linked_run_locked)
  have ident: "is_identity (JObj kvs) = Inr False"
    using assms(5)
    by (cases "map_of kvs ''identity''") (simp_all add: is_identity_def contains_map_of del: py_contains.simps)
  have has: "py_contains ''auth'' (JObj kvs) = Inr True"
    using assms(4) by (simp add: contains_map_of del: py_contains.simps)
  show ?thesis
    using lock assms(3) ident has
    by (simp add: touch_def process_message_def process_decoded_def auth_step_def
        is_client_authenticated_def del: py_contains.simps)
qed

theorem auth_message_after_identity_blocks_witness:
  "run late_run (initial tokens0 True) = server_late
   \<and> map_of (clients server_late) ''c1'' = Some alice \<and> \<not> authenticated alice
   \<and> serve ''c1''
       [(Data 103 (Some (JObj [(''auth'', JStr ''secret''), (''command'', JStr ''get_price'')])), rd0)]
       server_late = Blocked server_late
   \<and> process_message rd0 ''c1''
       (Some (JObj [(''auth'', JStr ''secret''), (''command'', JStr ''get_price'')])) server_late
       = Blocked server_late"
  using auth_message_after_identity_blocks [where s = server_late and acts = late_run
      and tokens = tokens0 and auth = True and sk = 2 and cid = "''c1''" and t = 103 and rd = rd0
      and rest = "[]" and tok = "JStr ''secret''"
      and kvs = "[(''auth'', JStr ''secret''), (''command'', JStr ''get_price'')]"] late_run_state
  by (simp add: server_late_def server0_def alice_def)

text \<open>
  Claim C2, on the code. The \<^verbatim>\<open>finally\<close> block of a connection never changes the upstream
  link, whatever the state. In the scenario the EA's thread blocks in the identity branch and
  does not reach that block when the EA disconnects; the link stays on socket 2. And were the
  registry lock free, the block would close the socket and leave the link on it, so that the
  next command is written to the closed socket and answered with the text of the OSError,
  not with \<open>MetaTrader EA not connected\<close>.
\<close>

theorem teardown_keeps_link:
  "mt5_connection (state_of (teardown cid sk s)) = mt5_connection s
   \<and> handle_client ''ea'' 2 (''127.0.0.1'', 50002) 101
        [(Data 102 (Some identity_msg), rd0), (Eof, rd0)] server_q = Blocked server_ea
   \<and> mt5_connection server_ea = Some 2
   \<and> teardown ''ea'' 2 (server_ea\<lparr>clients_lock := False\<rparr>) =
        Returned () (server_ea\<lparr>clients_lock := False,
           clients := [(''c1'', alice\<lparr>authenticated := True\<rparr>)],
           sock_errors := [(2, ''[Errno 9] Bad file descriptor'')]\<rparr>)
   \<and> process_command_queue rd0 []
        (server_ea\<lparr>clients_lock := False, clients := [(''c1'', alice\<lparr>authenticated := True\<rparr>)],
           sock_errors := [(2, ''[Errno 9] Bad file descriptor'')]\<rparr>) =
        Some (Returned () (server_ea\<lparr>clients_lock := False,
           clients := [(''c1'', alice\<lparr>authenticated := True\<rparr>)],
           sock_errors := [(2, ''[Errno 9] Bad file descriptor'')], command_queue := [],
           wire := [(1, auth_ok_reply), (1, queued_r1),
                    (1, JObj [(''status'', JStr ''error''), (''requestId'', JStr ''r1''),
                       (''message'', JStr ''Error executing command: [Errno 9] Bad file descriptor'')])]\<rparr>))"
  by (simp add: thread_defs message_defs dispatcher_defs str_exn_def example_defs)

text \<open>
  Claim C6, on the code. In every state a run reaches with an upstream link installed, the
  poll of the wait loop that finds the deadline passed blocks in \<^verbatim>\<open>_send_to_client\<close> and
  leaves the server as it was: the timeout error is not written, and the dispatcher does not
  return to take the next command.
\<close>

theorem timeout_reply_never_sent:
  assumes "s = run acts (initial tokens auth)" and "mt5_connection s = Some sk"
    and "30 \<le> t - start_time"
  shows "execute_command_poll t item start_time s = Blocked s"
proof -
  have "clients_lock s"
    using lock_held_iff_linked [of acts tokens auth] assms(1,2) by simp
  then show ?thesis
    using assms(3) by (simp add: execute_command_poll_def send_to_client_def)
qed

theorem timeout_reply_never_sent_witness:
  "run ea_run (initial tokens0 True) = server_ea
   \<and> execute_command_poll (1301 / 10) item_r1 100 server_ea = Blocked server_ea
   \<and> process_command_queue rd0 [1001 / 10, 115, 1301 / 10] server_ea =
     Some (Blocked (server_ea\<lparr>command_queue := [],
        wire := [(1, auth_ok_reply), (1, queued_r1),
                 (2, JObj [(''command'', JStr ''get_price''),
                           (''parameters'', JObj [(''symbol'', JStr ''EURUSD'')]),
                           (''requestId'', JStr ''r1''),
                           (''timestamp'', JStr ''2024-05-01T10:00:00'')])]\<rparr>))"
proof -
  have link: "mt5_connection server_ea = Some 2"
    by (simp add: server_ea_def)
  have "execute_command_poll (1301 / 10) item_r1 100 server_ea = Blocked server_ea"
    using timeout_reply_never_sent [where s = server_ea and acts = ea_run and tokens = tokens0
        and auth = True and sk = 2 and t = "1301 / 10" and start_time = 100 and item = item_r1]
      ea_run_state link by simp
  moreover have "process_command_queue rd0 [1001 / 10, 115, 1301 / 10] server_ea =
     Some (Blocked (server_ea\<lparr>command_queue := [],
        wire := [(1, auth_ok_reply), (1, queued_r1),
                 (2, JObj [(''command'', JStr ''get_price''),
                           (''parameters'', JObj [(''symbol'', JStr ''EURUSD'')]),
                           (''requestId'', JStr ''r1''),
                           (''timestamp'', JStr ''2024-05-01T10:00:00'')])]\<rparr>))"
    by (simp add: dispatcher_defs send_to_client_def sendall_def example_defs)
  ultimately show ?thesis using ea_run_state by simp
qed

section \<open>The reply path of the EA\<close>

text \<open>
  What the handler and the dispatcher do with a reply when the locks are free. No run
  reaches such a state with an upstream link installed (\<open>lock_held_iff_linked\<close>); the lemmas
  describe the two functions as they are written.
\<close>

lemma reply_is_stored:
  assumes "\<not> clients_lock s" and "\<not> cache_lock s"
    and "map_of (clients s) cid = Some ci" and "client_type ci = ''mt5_ea''"
    and "authenticated ci \<or> \<not> auth_enabled s"
    and "map_of kvs ''command'' = Some cmd" and "map_of kvs ''responseToId'' = Some rid"
    and "key_of rid = Inr k"
    and "map_of kvs ''identity'' \<noteq> Some (JStr ''MT5_EA'')"
  shows "process_message rd cid (Some (JObj kvs)) s =
     Returned () (s\<lparr>response_cache :=
        AList.update k \<lparr>entry_data = JObj kvs, entry_timestamp = time_now rd\<rparr> (response_cache s)\<rparr>)"
proof -
  have ident: "is_identity (JObj kvs) = Inr False"
    using assms(9) by (cases "map_of kvs ''identity''") (simp_all add: is_identity_def contains_map_of del: py_contains.simps)
  have authed: "is_client_authenticated cid s = Returned True s"
    using assms(1,3,5) by (auto simp: is_client_authenticated_def)
  have cmd: "py_contains ''command'' (JObj kvs) = Inr True"
    and resp: "py_contains ''responseToId'' (JObj kvs) = Inr True"
    using assms(6,7) by (simp_all add: contains_map_of del: py_contains.simps)
  obtain b where auth: "py_contains ''auth'' (JObj kvs) = Inr b"
    by (simp add: contains_map_of del: py_contains.simps)
  show ?thesis
    using assms(1-4,6-8) ident authed cmd resp auth
    by (cases b) (simp_all add: process_message_def process_decoded_def auth_step_def command_gate_def
        process_command_def store_response_def get_client_type_def split: option.splits del: py_contains.simps)
qed

lemma stored_reply_is_forwarded:
  assumes "\<not> clients_lock s" and "\<not> cache_lock s"
    and "key_of (request_id item) = Inr k" and "map_of (response_cache s) k = Some entry"
    and "t - start_time < 30"
    and "map_of (clients s) (client_id item) = Some ci"
    and "map_of (sock_errors s) (socket ci) = None"
  shows "execute_command_poll t item start_time s =
     Returned True (s\<lparr>response_cache := AList.delete k (response_cache s),
                      wire := wire s @ [(socket ci, entry_data entry)]\<rparr>)"
proof -
  have "s\<lparr>cache_lock := False\<rparr> = s" using assms(2) by simp
  then have "s\<lparr>cache_lock := False, response_cache := c, wire := w\<rparr> = s\<lparr>response_cache := c, wire := w\<rparr>" for c w
    by simp
  then show ?thesis
    using assms by (simp add: execute_command_poll_def send_to_client_def sendall_def)
qed

lemma missing_reply_keeps_waiting:
  assumes "\<not> cache_lock s" and "key_of (request_id item) = Inr k"
    and "map_of (response_cache s) k = None" and "t - start_time < 30"
  shows "execute_command_poll t item start_time s = Returned False s"
  using assms by (simp add: execute_command_poll_def)

lemma timeout_is_reported_with_lock_free:
  assumes "\<not> clients_lock s" and "30 \<le> t - start_time"
    and "map_of (clients s) (client_id item) = Some ci"
    and "map_of (sock_errors s) (socket ci) = None"
  shows "execute_command_poll t item start_time s =
     Returned True (s\<lparr>wire := wire s @ [(socket ci,
        error_reply (request_id item) ''Timeout waiting for response from MetaTrader'')]\<rparr>)"
  using assms by (simp add: execute_command_poll_def send_to_client_def sendall_def)


section \<open>The response cache in every run\<close>

lemma no_ea_update:
  "no_ea cs \<Longrightarrow> client_type v \<noteq> ''mt5_ea'' \<Longrightarrow> no_ea (AList.update k v cs)"
  by (induction cs) (auto simp: no_ea_def)

lemma no_ea_delete: "no_ea cs \<Longrightarrow> no_ea (AList.delete k cs)"
  by (induction cs) (auto simp: no_ea_def)

lemma no_ea_lookup: "no_ea cs \<Longrightarrow> map_of cs k = Some ci \<Longrightarrow> client_type ci \<noteq> ''mt5_ea''"
proof -
  assume a: "no_ea cs" and b: "map_of cs k = Some ci"
  from b have "(k, ci) \<in> set cs" by (rule map_of_SomeD)
  with a show ?thesis by (auto simp: no_ea_def list_all_iff)
qed

lemma then_unanswered:
  assumes "unanswered (state_of r)"
    and "\<And>v s1. r = Returned v s1 \<Longrightarrow> unanswered (state_of (k v s1))"
  shows "unanswered (state_of (case r of Returned v s1 \<Rightarrow> k v s1 | Raised e s1 \<Rightarrow> Raised e s1 | Blocked s1 \<Rightarrow> Blocked s1))"
  using assms by (cases r) simp_all

lemma send_unanswered: "unanswered s \<Longrightarrow> unanswered (state_of (send_to_client cid m s))"
  by (auto simp: unanswered_def send_to_client_def sendall_def split: option.splits)

lemma authenticate_unanswered: "unanswered s \<Longrightarrow> unanswered (state_of (authenticate_client cid tok s))"
proof -
  assume u: "unanswered s"
  have "unanswered (s\<lparr>clients := AList.update cid (ci\<lparr>authenticated := True\<rparr>) (clients s)\<rparr>)"
    if "map_of (clients s) cid = Some ci" for ci
    using u that no_ea_lookup [of "clients s" cid ci]
    by (auto simp: unanswered_def intro: no_ea_update)
  then show ?thesis using u
    by (simp add: authenticate_client_def split: option.splits sum.splits)
qed

lemma handshake_unanswered: "unanswered s \<Longrightarrow> unanswered (state_of (handshake cid d s))"
proof -
  assume f: "unanswered s"
  show ?thesis
  proof (cases "py_getitem d ''auth''")
    case (Inl e)
    then show ?thesis using f by (simp add: handshake_def)
  next
    case (Inr tok)
    have "unanswered (state_of (case authenticate_client cid tok s of
        Returned ok s1 \<Rightarrow> discard (send_to_client cid (if ok then auth_ok_reply else auth_failed_reply) s1)
      | Raised e s1 \<Rightarrow> Raised e s1 | Blocked s1 \<Rightarrow> Blocked s1))"
    proof (rule then_unanswered)
      show "unanswered (state_of (authenticate_client cid tok s))" using f by (rule authenticate_unanswered)
    next
      fix v s1 assume "authenticate_client cid tok s = Returned v s1"
      then have "unanswered s1" using authenticate_unanswered [OF f, of cid tok] by simp
      then show "unanswered (state_of (discard (send_to_client cid (if v then auth_ok_reply else auth_failed_reply) s1)))"
        by (simp add: discard_state send_unanswered)
    qed
    then show ?thesis by (simp add: handshake_def Inr)
  qed
qed

lemma enqueue_unanswered: "unanswered s \<Longrightarrow> unanswered (state_of (enqueue_command rd cid cmd params rid s))"
proof -
  assume "unanswered s"
  then have "unanswered (s\<lparr>command_queue := command_queue s @
      [\<lparr>client_id = cid, command = cmd, parameters = params, request_id = rid, enqueued_at = time_now rd\<rparr>]\<rparr>)"
    by (simp add: unanswered_def)
  then show ?thesis
    unfolding enqueue_command_def discard_state by (rule send_unanswered)
qed

lemma no_ea_type:
  assumes "unanswered s" and "get_client_type cid s = Returned ty s1"
  shows "ty \<noteq> ''mt5_ea'' \<and> s1 = s"
proof -
  from assms(2) have free: "\<not> clients_lock s"
    by (auto simp: get_client_type_def split: if_splits)
  with assms(1) have "no_ea (clients s)" by (simp add: unanswered_def)
  then show ?thesis
    using assms(2) free no_ea_lookup [of "clients s" cid]
    by (auto simp: get_client_type_def split: option.splits)
qed

lemma command_unanswered: "unanswered s \<Longrightarrow> unanswered (state_of (process_command rd cid d s))"
proof -
  assume f: "unanswered s"
  have step: "unanswered (state_of (case get_client_type cid s of
        Returned ty s1 \<Rightarrow> (if ty = ''mt5_ea'' then store_response rd d s1
                            else enqueue_command rd cid cmd params rid s1)
      | Raised e s1 \<Rightarrow> Raised e s1 | Blocked s1 \<Rightarrow> Blocked s1))" for cmd params rid
  proof (rule then_unanswered)
    show "unanswered (state_of (get_client_type cid s))" using f by (simp add: client_type_state)
  next
    fix v s1 assume "get_client_type cid s = Returned v s1"
    then have "v \<noteq> ''mt5_ea'' \<and> s1 = s" using f by (intro no_ea_type)
    then show "unanswered (state_of (if v = ''mt5_ea'' then store_response rd d s1
        else enqueue_command rd cid cmd params rid s1))"
      using f by (simp add: enqueue_unanswered)
  qed
  show ?thesis
    unfolding process_command_def using f step
    by (simp split: sum.splits)
qed

lemma gate_unanswered: "unanswered s \<Longrightarrow> unanswered (state_of (command_gate rd cid d s))"
proof -
  assume f: "unanswered s"
  show ?thesis unfolding command_gate_def
  proof (rule then_unanswered)
    show "unanswered (state_of (is_client_authenticated cid s))" using f by (simp add: is_authenticated_state)
  next
    fix v s1 assume "is_client_authenticated cid s = Returned v s1"
    then have "s1 = s" using is_authenticated_state [of cid s] by simp
    then show "unanswered (state_of (if v then process_command rd cid d s1
        else discard (send_to_client cid not_authenticated_reply s1)))"
      using f by (simp add: command_unanswered discard_state send_unanswered)
  qed
qed

lemma auth_step_unanswered: "unanswered s \<Longrightarrow> unanswered (state_of (auth_step rd cid d s))"
proof -
  assume f: "unanswered s"
  have step: "unanswered (state_of (case is_client_authenticated cid s of
        Returned authed s1 \<Rightarrow> (if authed then command_gate rd cid d s1 else handshake cid d s1)
      | Raised e s1 \<Rightarrow> Raised e s1 | Blocked s1 \<Rightarrow> Blocked s1))"
  proof (rule then_unanswered)
    show "unanswered (state_of (is_client_authenticated cid s))" using f by (simp add: is_authenticated_state)
  next
    fix v s1 assume "is_client_authenticated cid s = Returned v s1"
    then have "s1 = s" using is_authenticated_state [of cid s] by simp
    then show "unanswered (state_of (if v then command_gate rd cid d s1 else handshake cid d s1))"
      using f by (simp add: gate_unanswered handshake_unanswered)
  qed
  show ?thesis
    unfolding auth_step_def using f step gate_unanswered [OF f, of rd cid d]
    by (simp split: sum.splits)
qed

lemma identify_unanswered: "unanswered s \<Longrightarrow> unanswered (state_of (identify rd cid s))"
  by (auto simp: identify_def send_to_client_def unanswered_def split: option.splits)

lemma decoded_unanswered: "unanswered s \<Longrightarrow> unanswered (state_of (process_decoded rd cid d s))"
proof -
  assume f: "unanswered s"
  have step: "unanswered (state_of (case identify rd cid s of
        Returned done s1 \<Rightarrow> (if done then Returned () s1 else auth_step rd cid d s1)
      | Raised e s1 \<Rightarrow> Raised e s1 | Blocked s1 \<Rightarrow> Blocked s1))"
  proof (rule then_unanswered)
    show "unanswered (state_of (identify rd cid s))" using f by (rule identify_unanswered)
  next
    fix v s1 assume "identify rd cid s = Returned v s1"
    then have "unanswered s1" using identify_unanswered [OF f, of rd cid] by simp
    then show "unanswered (state_of (if v then Returned () s1 else auth_step rd cid d s1))"
      by (simp add: auth_step_unanswered)
  qed
  show ?thesis
    unfolding process_decoded_def using f step auth_step_unanswered [OF f, of rd cid d]
    by (simp split: sum.splits)
qed

lemma message_unanswered: "unanswered s \<Longrightarrow> unanswered (state_of (process_message rd cid m s))"
proof (cases m)
  case None
  assume "unanswered s"
  then show ?thesis by (simp add: None process_message_def discard_state send_unanswered)
next
  case (Some d)
  assume "unanswered s"
  from decoded_unanswered [OF this, of rd cid d] show ?thesis
    by (cases "process_decoded rd cid d s") (simp_all add: Some process_message_def)
qed

lemma touch_unanswered: "unanswered s \<Longrightarrow> unanswered (state_of (touch cid t s))"
proof -
  assume u: "unanswered s"
  have "unanswered (s\<lparr>clients := AList.update cid (ci\<lparr>last_activity := t\<rparr>) (clients s)\<rparr>)"
    if "map_of (clients s) cid = Some ci" for ci
    using u that no_ea_lookup [of "clients s" cid ci]
    by (auto simp: unanswered_def intro: no_ea_update)
  then show ?thesis using u
    by (simp add: touch_def split: option.splits)
qed

lemma serve_unanswered: "unanswered s \<Longrightarrow> unanswered (state_of (serve cid [(ev, rd)] s))"
proof (cases ev)
  case (Data t m)
  assume f: "unanswered s"
  show ?thesis
  proof (cases "touch cid t s")
    case (Returned u s1)
    then have "unanswered s1" using touch_unanswered [OF f, of cid t] by simp
    from message_unanswered [OF this, of rd cid m] show ?thesis
      by (cases "process_message rd cid m s1") (simp_all add: Data Returned)
  next
    case (Raised e s1)
    then show ?thesis using touch_unanswered [OF f, of cid t] by (simp add: Data)
  next
    case (Blocked s1)
    then show ?thesis using touch_unanswered [OF f, of cid t] by (simp add: Data)
  qed
next
  case (Undecodable t)
  assume f: "unanswered s"
  show ?thesis using touch_unanswered [OF f, of cid t]
    by (cases "touch cid t s") (simp_all add: Undecodable)
next
  case (Timeout t)
  assume "unanswered s"
  then show ?thesis by (simp add: Timeout split: option.splits)
next
  case Eof
  assume "unanswered s"
  then show ?thesis by (simp add: Eof)
next
  case RecvError
  assume "unanswered s"
  then show ?thesis by (simp add: RecvError)
qed

lemma failure_unanswered: "unanswered s \<Longrightarrow> unanswered (state_of (report_failure item e s))"
  by (simp add: report_failure_def discard_state send_unanswered)

lemma send_part_unanswered: "unanswered s \<Longrightarrow> unanswered (state_of (execute_command_send rd item s))"
proof (cases "mt5_connection s")
  case None
  assume f: "unanswered s"
  from send_unanswered [OF f, of "client_id item" "error_reply (request_id item) ''MetaTrader EA not connected''"]
  show ?thesis
    by (cases "send_to_client (client_id item) (error_reply (request_id item) ''MetaTrader EA not connected'') s")
      (simp_all add: execute_command_send_def None)
next
  case (Some sk)
  assume f: "unanswered s"
  show ?thesis
  proof (cases "sendall sk (forward_envelope rd item) s")
    case (Inl e)
    from failure_unanswered [OF f, of item e] show ?thesis
      by (cases "report_failure item e s") (simp_all add: execute_command_send_def Some Inl)
  next
    case (Inr s1)
    then have "unanswered s1" using f by (auto simp: sendall_def unanswered_def split: option.splits)
    then show ?thesis by (simp add: execute_command_send_def Some Inr)
  qed
qed

lemma poll_unanswered: "unanswered s \<Longrightarrow> unanswered (state_of (execute_command_poll t item start_time s))"
proof -
  assume f: "unanswered s"
  have timeout: "unanswered (state_of (case send_to_client (client_id item) m s of
      Returned b s1 \<Rightarrow> Returned True s1 | Raised e s1 \<Rightarrow> Raised e s1 | Blocked s1 \<Rightarrow> Blocked s1))" for m
    using send_unanswered [OF f, of "client_id item" m]
    by (cases "send_to_client (client_id item) m s") simp_all
  have failure: "unanswered (state_of (case report_failure item e s of
      Returned u s1 \<Rightarrow> Returned True s1 | Raised e1 s1 \<Rightarrow> Raised e1 s1 | Blocked s1 \<Rightarrow> Blocked s1))" for e
    using failure_unanswered [OF f, of item e]
    by (cases "report_failure item e s") simp_all
  have empty: "map_of (response_cache s) k = None" for k
    using f by (simp add: unanswered_def)
  show ?thesis
    unfolding execute_command_poll_def using f timeout failure empty
    by (simp split: sum.splits)
qed

lemma perform_unanswered: "unanswered s \<Longrightarrow> unanswered (perform a s)"
proof (cases a)
  case (Accept cid sk addr t)
  assume "unanswered s"
  then show ?thesis by (auto simp: Accept register_client_def unanswered_def intro: no_ea_update)
next
  case (Receive cid ev rd)
  assume "unanswered s"
  then show ?thesis unfolding Receive perform.simps by (rule serve_unanswered)
next
  case (Close cid sk)
  assume "unanswered s"
  then show ?thesis by (auto simp: Close teardown_def unanswered_def intro: no_ea_delete)
next
  case (Dispatch rd)
  assume f: "unanswered s"
  show ?thesis
  proof (cases "command_queue s")
    case Nil
    then show ?thesis using f by (simp add: Dispatch)
  next
    case (Cons item rest)
    have "unanswered (s\<lparr>command_queue := rest\<rparr>)" using f by (simp add: unanswered_def)
    then show ?thesis by (simp add: Dispatch Cons send_part_unanswered)
  qed
next
  case (Poll t item start_time)
  assume "unanswered s"
  then show ?thesis unfolding Poll perform.simps by (rule poll_unanswered)
next
  case (Sweep t)
  assume "unanswered s"
  then show ?thesis by (auto simp: Sweep clean_expired_cache_def unanswered_def)
next
  case (SocketFails sk m)
  assume "unanswered s"
  then show ?thesis by (simp add: SocketFails unanswered_def)
qed

lemma run_unanswered: "unanswered s \<Longrightarrow> unanswered (run as s)"
  by (induction as arbitrary: s) (simp_all add: perform_unanswered)

text \<open>
  Claim C1, on the code. In no run of the server is anything ever stored in the response
  cache: the one place that gives a connection the type \<open>mt5_ea\<close> is the identity branch,
  which leaves the registry lock held, and from then on no message of any connection is
  handled. A reply of the EA is therefore never stored and never forwarded.
\<close>

theorem reply_never_stored:
  "response_cache (run acts (initial tokens auth)) = []"
proof -
  have "unanswered (initial tokens auth)"
    by (simp add: unanswered_def initial_def no_ea_def)
  then have "unanswered (run acts (initial tokens auth))" by (rule run_unanswered)
  then show ?thesis by (simp add: unanswered_def)
qed

theorem reply_never_stored_witness:
  "response_cache (run (ea_run @ [Receive ''ea'' (Data 103 (Some reply_r1)) rd0, Poll 105 item_r1 100])
       (initial tokens0 True)) = []
   \<and> run (ea_run @ [Receive ''ea'' (Data 103 (Some reply_r1)) rd0]) (initial tokens0 True) = server_ea"
proof -
  have "run (ea_run @ [Receive ''ea'' (Data 103 (Some reply_r1)) rd0]) (initial tokens0 True) =
      state_of (serve ''ea'' [(Data 103 (Some reply_r1), rd0)] server_ea)"
    using ea_run_state by (simp add: run_append)
  also have "\<dots> = server_ea"
    by (simp add: touch_def server_ea_def)
  finally show ?thesis
    using reply_never_stored [of "ea_run @ [Receive ''ea'' (Data 103 (Some reply_r1)) rd0, Poll 105 item_r1 100]"
        tokens0 True]
    by simp
qed

section \<open>Properties of the client\<close>

lemma sync_entry:
  "(case map_of cbs k of Some cb \<Rightarrow> cb = SyncCallback | None \<Rightarrow> False) = (map_of cbs k = Some SyncCallback)"
  by (cases "map_of cbs k") simp_all

lemma fires_sync_cong: "same_sync cbs cbs' \<Longrightarrow> fires_sync cbs m = fires_sync cbs' m"
  unfolding fires_sync_def sync_entry same_sync_def
  by (simp split: option.splits sum.splits)

lemma same_sync_delete:
  "map_of cbs k \<noteq> Some SyncCallback \<Longrightarrow> same_sync (AList.delete k cbs) cbs"
  by (auto simp: same_sync_def delete_conv')

lemma quiet_message:
  assumes "\<not> fires_sync (callbacks c) m"
  shows "response_event (process_response m c) = response_event c
       \<and> last_response (process_response m c) = last_response c
       \<and> same_sync (callbacks (process_response m c)) (callbacks c)"
proof -
  have refl: "same_sync (callbacks c) (callbacks c)" by (simp add: same_sync_def)
  show ?thesis
    using assms refl
    by (auto simp: fires_sync_def process_response_def run_default_def run_callback_def
        same_sync_delete split: option.splits sum.splits callback.splits if_splits)
qed

lemma firing_message:
  assumes "fires_sync (callbacks c) (Some r)"
  shows "response_event (process_response (Some r) c) \<and> last_response (process_response (Some r) c) = Some r"
  using assms
  by (auto simp: fires_sync_def process_response_def run_default_def run_callback_def
      split: option.splits sum.splits if_splits)

lemma firing_truthy: "fires_sync cbs (Some r) \<Longrightarrow> py_truthy r"
  by (cases r) (auto simp: fires_sync_def split: option.splits sum.splits if_splits)

lemma fires_sync_own_id:
  assumes "list_all (\<lambda>kc. snd kc \<noteq> SyncCallback) cbs"
  shows "fires_sync (AList.update (KStr rid) SyncCallback cbs) (Some (JObj kvs)) =
     (case map_of kvs ''requestId'' of
        Some v \<Rightarrow> py_truthy v \<and> key_of v = Inr (KStr rid)
      | None \<Rightarrow> False)"
proof -
  have none: "map_of cbs k \<noteq> Some SyncCallback" for k
  proof
    assume "map_of cbs k = Some SyncCallback"
    then have "(k, SyncCallback) \<in> set cbs" by (rule map_of_SomeD)
    with assms show False by (auto simp: list_all_iff)
  qed
  have own: "(map_of (AList.update (KStr rid) SyncCallback cbs) k = Some SyncCallback) = (k = KStr rid)" for k
    using none [of k] by (simp add: update_conv')
  show ?thesis
    unfolding fires_sync_def sync_entry own
    by (auto split: option.splits sum.splits)
qed

lemma await_first_firing:
  assumes "\<not> response_event c" and "list_all (\<lambda>m. \<not> fires_sync (callbacks c) m) pre"
    and "fires_sync (callbacks c) (Some r)"
  shows "response_event (await_response (pre @ Some r # post) c)
       \<and> last_response (await_response (pre @ Some r # post) c) = Some r"
  using assms
proof (induction pre arbitrary: c)
  case Nil
  then show ?case using firing_message [of c r] by simp
next
  case (Cons m pre)
  let ?c = "process_response m c"
  from Cons.prems have quiet: "\<not> fires_sync (callbacks c) m" by simp
  note q = quiet_message [OF quiet]
  have ev: "\<not> response_event ?c" using q Cons.prems(1) by simp
  have same: "same_sync (callbacks ?c) (callbacks c)" using q by simp
  have pre': "list_all (\<lambda>m. \<not> fires_sync (callbacks ?c) m) pre"
    using Cons.prems(2) fires_sync_cong [OF same] by (simp add: list_all_iff)
  have fire': "fires_sync (callbacks ?c) (Some r)"
    using Cons.prems(3) fires_sync_cong [OF same] by simp
  show ?case using Cons.IH [OF ev pre' fire'] ev by simp
qed

text \<open>
  A synchronous call that gets its request onto the socket returns the first message
  handled afterwards that fires the synchronous callback: a dictionary whose \<^verbatim>\<open>requestId\<close>
  is registered to that callback.
\<close>

lemma sync_call_returns_first_firing:
  assumes "c_connected c" and "c_auth_token c = None \<or> c_authenticated c" and "send_error c = None"
    and "list_all (\<lambda>m. \<not> fires_sync (AList.update (KStr rid) SyncCallback (callbacks c)) m) pre"
    and "fires_sync (AList.update (KStr rid) SyncCallback (callbacks c)) (Some r)"
  shows "fst (send_command rid cmd params None (pre @ Some r # post) c) = r"
proof -
  let ?c = "c\<lparr>response_event := False, last_response := None,
              callbacks := AList.update (KStr rid) SyncCallback (callbacks c),
              outbox := outbox c @ [command_message c rid cmd params]\<rparr>"
  have "response_event (await_response (pre @ Some r # post) ?c)
      \<and> last_response (await_response (pre @ Some r # post) ?c) = Some r"
    using assms(4,5) by (intro await_first_firing) simp_all
  then show ?thesis
    using assms(1-3) firing_truthy [OF assms(5)]
    by (auto simp: send_command_def Let_def split: option.splits)
qed

lemma first_call_returns_first_message:
  "fst (send_command ''r1'' (JStr ''get_price'') JNull None [None, Some queued_r1, Some not_connected_r1] client0)
     = queued_r1"
  using sync_call_returns_first_firing [where c = client0 and rid = "''r1''" and pre = "[None]"
      and r = queued_r1 and post = "[Some not_connected_r1]" and cmd = "JStr ''get_price''" and params = JNull]
  by (simp add: client0_def fires_sync_def queued_r1_def)

text \<open>
  Claim C10, on the code. A synchronous call that returns a reply leaves its entry in the
  callback table (the timeout path removes it, the success path does not). In the scenario
  the first call returns the acknowledgement for \<open>r1\<close>; the terminal reply for \<open>r1\<close> arrives
  while the second call waits, fires the entry the first call left, and is what the second
  call returns, although its request identifier is \<open>r2\<close> and the acknowledgement for \<open>r2\<close>
  is still to come.
\<close>

theorem stale_sync_callback_answers:
  "callbacks (snd (send_command ''r1'' (JStr ''get_price'') JNull None [Some queued_r1] client0))
     = [(KStr ''r1'', SyncCallback)]
   \<and> callbacks (snd (send_command ''r1'' (JStr ''get_price'') JNull None [] client0)) = []
   \<and> fst (send_command ''r2'' (JStr ''get_price'') JNull None [Some not_connected_r1, Some queued_r2]
         (snd (send_command ''r1'' (JStr ''get_price'') JNull None [Some queued_r1] client0)))
     = not_connected_r1"
  by (simp add: send_command_def client0_def process_response_def run_callback_def run_default_def
      queued_r1_def queued_r2_def not_connected_r1_def command_message_def Let_def)

end
